theory Spec2Isabelle
  imports Complex_Main "HOL-Library.Sublist"
begin

section \<open>JavaScript values used by App.js\<close>

text \<open>
  The component in \<^verbatim>\<open>src/App.js\<close> works on plain JavaScript values: the form fields are
  strings, the documents read from the store are objects whose properties can hold any
  value, and amounts are numbers.

  Numbers. A JavaScript number is an IEEE double: NaN, one of the two infinities, or a
  finite value, which is represented by the rational it denotes. Every sum, every
  difference and every parsed literal is rounded to the nearest double, as IEEE 754
  prescribes. The two zeros are one value: the program never divides by a number, and a
  zero prints and compares the same with either sign.

  Strings. A string is the list of the bytes of its UTF-8 encoding, which is also what the
  exported files contain. Every character the code looks for (the double quote, the comma,
  the digits, \<^verbatim>\<open>T\<close>) is a single byte that never occurs inside a longer UTF-8 sequence, so
  searching and replacing on bytes agrees with the program.
\<close>

datatype jsnum = Fin rat | PInf | NInf | NaN

subsection \<open>Rounding to a double\<close>

text \<open>
  The double nearest to a rational: with \<open>e\<close> the binary exponent of the magnitude, not
  below the smallest normal exponent -1022, the magnitude is rounded to a multiple of
  \<open>2\<^sup>e\<^sup>-\<^sup>5\<^sup>2\<close>, the nearer one, the one with the even multiplier on a tie. A result of
  \<open>2\<^sup>1\<^sup>0\<^sup>2\<^sup>4\<close> or more is an infinity.
\<close>

function bitLength :: "nat \<Rightarrow> nat" where
  "bitLength n = (if n = 0 then 0 else Suc (bitLength (n div 2)))"
  by pat_completeness auto
termination
  by (relation "measure (\<lambda>n. n)") auto

declare bitLength.simps [simp del]

definition pow2 :: "int \<Rightarrow> rat" where
  "pow2 k = (if 0 \<le> k then 2 ^ nat k else 1 / 2 ^ nat (- k))"

text \<open>The integer part of the binary logarithm of a positive rational.\<close>

definition log2floor :: "rat \<Rightarrow> int" where
  "log2floor a =
     (if 1 \<le> a then int (bitLength (nat \<lfloor>a\<rfloor>)) - 1
      else - int (bitLength (nat (\<lceil>1 / a\<rceil> - 1))))"

definition roundHalfEven :: "rat \<Rightarrow> int" where
  "roundHalfEven t =
     (let n = \<lfloor>t\<rfloor>; d = t - of_int n
      in if d < 1 / 2 then n else if 1 / 2 < d then n + 1 else if even n then n else n + 1)"

definition roundMagnitude :: "rat \<Rightarrow> rat" where
  "roundMagnitude a =
     (let e = max (log2floor a) (- 1022);
          q = pow2 (e - 52)
      in of_int (roundHalfEven (a / q)) * q)"

definition roundDouble :: "rat \<Rightarrow> jsnum" where
  "roundDouble x =
     (if x = 0 then Fin 0
      else
        (let m = roundMagnitude \<bar>x\<bar>
         in if pow2 1024 \<le> m then (if x < 0 then NInf else PInf)
            else Fin (if x < 0 then - m else m)))"

text \<open>Addition, negation and subtraction of numbers.\<close>

fun jadd :: "jsnum \<Rightarrow> jsnum \<Rightarrow> jsnum" where
  "jadd NaN _ = NaN"
| "jadd _ NaN = NaN"
| "jadd PInf NInf = NaN"
| "jadd NInf PInf = NaN"
| "jadd PInf _ = PInf"
| "jadd _ PInf = PInf"
| "jadd NInf _ = NInf"
| "jadd _ NInf = NInf"
| "jadd (Fin a) (Fin b) = roundDouble (a + b)"

fun jneg :: "jsnum \<Rightarrow> jsnum" where
  "jneg (Fin a) = Fin (- a)"
| "jneg PInf = NInf"
| "jneg NInf = PInf"
| "jneg NaN = NaN"

definition jsub :: "jsnum \<Rightarrow> jsnum \<Rightarrow> jsnum" where
  "jsub a b = jadd a (jneg b)"

text \<open>The comparison \<^verbatim>\<open>a <= b\<close>: false as soon as one side is NaN.\<close>

fun jle :: "jsnum \<Rightarrow> jsnum \<Rightarrow> bool" where
  "jle NaN _ = False"
| "jle _ NaN = False"
| "jle NInf _ = True"
| "jle _ PInf = True"
| "jle PInf _ = False"
| "jle _ NInf = False"
| "jle (Fin a) (Fin b) = (a \<le> b)"

datatype jsval = Undefined | Null | JBool bool | JNum jsnum | JStr string

text \<open>What \<^verbatim>\<open>v ? a : b\<close>, \<^verbatim>\<open>!v\<close> and \<^verbatim>\<open>v || d\<close> test.\<close>

fun truthy :: "jsval \<Rightarrow> bool" where
  "truthy Undefined = False"
| "truthy Null = False"
| "truthy (JBool b) = b"
| "truthy (JNum n) = (n \<noteq> NaN \<and> n \<noteq> Fin 0)"
| "truthy (JStr s) = (s \<noteq> [])"

subsection \<open>Decimal digits\<close>

definition isDigit :: "char \<Rightarrow> bool" where
  "isDigit c = (c \<in> set ''0123456789'')"

definition digitVal :: "char \<Rightarrow> nat" where
  "digitVal c = of_char c - 48"

definition digitsVal :: "string \<Rightarrow> nat" where
  "digitsVal ds = foldl (\<lambda>a c. 10 * a + digitVal c) 0 ds"

definition digitChar :: "nat \<Rightarrow> char" where
  "digitChar d = ''0123456789'' ! d"

function natToDigits :: "nat \<Rightarrow> string" where
  "natToDigits n =
     (if n < 10 then [digitChar n] else natToDigits (n div 10) @ [digitChar (n mod 10)])"
  by pat_completeness auto
termination
  by (relation "measure (\<lambda>n. n)") auto

declare natToDigits.simps [simp del]

subsection \<open>White space\<close>

text \<open>
  The characters that \<^verbatim>\<open>parseFloat\<close> skips at the start of its argument and that the
  regular expression \<^verbatim>\<open>\s\<close> matches: TAB, LF, VT, FF, CR, SP, U+00A0, U+1680,
  U+2000 to U+200A, U+2028, U+2029, U+202F, U+205F, U+3000 and U+FEFF, in UTF-8.
\<close>

definition ws1 :: "string list" where
  "ws1 = [[CHR 0x09], [CHR 0x0A], [CHR 0x0B], [CHR 0x0C], [CHR 0x0D], [CHR 0x20]]"

definition ws2 :: "string list" where
  "ws2 = [[CHR 0xC2, CHR 0xA0]]"

definition ws3 :: "string list" where
  "ws3 = [[CHR 0xE1, CHR 0x9A, CHR 0x80],
          [CHR 0xE2, CHR 0x80, CHR 0x80], [CHR 0xE2, CHR 0x80, CHR 0x81],
          [CHR 0xE2, CHR 0x80, CHR 0x82], [CHR 0xE2, CHR 0x80, CHR 0x83],
          [CHR 0xE2, CHR 0x80, CHR 0x84], [CHR 0xE2, CHR 0x80, CHR 0x85],
          [CHR 0xE2, CHR 0x80, CHR 0x86], [CHR 0xE2, CHR 0x80, CHR 0x87],
          [CHR 0xE2, CHR 0x80, CHR 0x88], [CHR 0xE2, CHR 0x80, CHR 0x89],
          [CHR 0xE2, CHR 0x80, CHR 0x8A], [CHR 0xE2, CHR 0x80, CHR 0xA8],
          [CHR 0xE2, CHR 0x80, CHR 0xA9], [CHR 0xE2, CHR 0x80, CHR 0xAF],
          [CHR 0xE2, CHR 0x81, CHR 0x9F], [CHR 0xE3, CHR 0x80, CHR 0x80],
          [CHR 0xEF, CHR 0xBB, CHR 0xBF]]"

text \<open>The number of bytes of the white-space character at the head of a string, 0 if there is none.\<close>

definition wsLen :: "string \<Rightarrow> nat" where
  "wsLen s =
     (if take 1 s \<in> set ws1 then 1
      else if take 2 s \<in> set ws2 then 2
      else if take 3 s \<in> set ws3 then 3
      else 0)"

function trimStart :: "string \<Rightarrow> string" where
  "trimStart s = (if wsLen s = 0 then s else trimStart (drop (wsLen s) s))"
  by pat_completeness auto
termination
proof (relation "measure length")
  show "wf (measure length)" by simp
next
  fix s :: string
  assume ws: "wsLen s \<noteq> 0"
  have "s \<noteq> []"
    using ws by (auto simp: wsLen_def ws1_def ws2_def ws3_def)
  with ws have "0 < length s" and "0 < wsLen s"
    by simp_all
  then have "length s - wsLen s < length s"
    by (rule diff_less [rotated])
  then show "(drop (wsLen s) s, s) \<in> measure length"
    by simp
qed

declare trimStart.simps [simp del]

subsection \<open>parseFloat\<close>

text \<open>
  \<^verbatim>\<open>parseFloat\<close> skips leading white space and reads the longest prefix that is a decimal
  literal: an optional sign, then \<^verbatim>\<open>Infinity\<close> or digits with an optional fraction and
  an optional exponent. It returns the double nearest to the value of the literal, and NaN
  when no such prefix exists.
\<close>

definition parseExponent :: "string \<Rightarrow> int" where
  "parseExponent r =
     (case r of
        [] \<Rightarrow> 0
      | c # d \<Rightarrow>
          if c = CHR ''e'' \<or> c = CHR ''E'' then
            (let neg = (case d of [] \<Rightarrow> False | x # _ \<Rightarrow> x = CHR ''-'');
                 ds = (case d of [] \<Rightarrow> []
                       | x # y \<Rightarrow> if x = CHR ''-'' \<or> x = CHR ''+'' then y else d);
                 ex = takeWhile isDigit ds
             in if ex = [] then 0
                else if neg then - int (digitsVal ex) else int (digitsVal ex))
          else 0)"

definition scale10 :: "rat \<Rightarrow> int \<Rightarrow> rat" where
  "scale10 m e = (if 0 \<le> e then m * 10 ^ nat e else m / 10 ^ nat (- e))"

definition parseFloatS :: "string \<Rightarrow> jsnum" where
  "parseFloatS inputString =
     (let trimmed = trimStart inputString;
          neg = (case trimmed of [] \<Rightarrow> False | c # _ \<Rightarrow> c = CHR ''-'');
          u = (case trimmed of [] \<Rightarrow> []
               | c # cs \<Rightarrow> if c = CHR ''-'' \<or> c = CHR ''+'' then cs else trimmed)
      in if prefix ''Infinity'' u then (if neg then NInf else PInf)
         else
           (let ip = takeWhile isDigit u;
                r1 = dropWhile isDigit u;
                hasDot = (case r1 of [] \<Rightarrow> False | c # _ \<Rightarrow> c = CHR ''.'');
                fp = (if hasDot then takeWhile isDigit (tl r1) else []);
                r2 = (if hasDot then dropWhile isDigit (tl r1) else r1)
            in if ip = [] \<and> fp = [] then NaN
               else
                 (let mant = of_nat (digitsVal ip) + of_nat (digitsVal fp) / 10 ^ length fp;
                      v = scale10 mant (parseExponent r2)
                  in roundDouble (if neg then - v else v))))"

text \<open>
  Applied to a value that is not a string, \<^verbatim>\<open>parseFloat\<close> converts it to a string first.
  A number converts to its own literal and is read back unchanged; \<^verbatim>\<open>undefined\<close>,
  \<^verbatim>\<open>null\<close>, \<^verbatim>\<open>true\<close> and \<^verbatim>\<open>false\<close> do not start with a decimal literal.
\<close>

fun parseFloat :: "jsval \<Rightarrow> jsnum" where
  "parseFloat (JStr s) = parseFloatS s"
| "parseFloat (JNum n) = n"
| "parseFloat Undefined = NaN"
| "parseFloat Null = NaN"
| "parseFloat (JBool _) = NaN"

section \<open>Records and the state of the component\<close>

text \<open>
  An entry is the object built by \<^verbatim>\<open>addEntry\<close> (\<^verbatim>\<open>newEntryData\<close>), stored by the record
  store, and read back by the snapshot listener as \<^verbatim>\<open>{id: doc.id, ...doc.data()}\<close>. The
  store has no schema, so every property is a JavaScript value; a missing property reads
  as \<^verbatim>\<open>undefined\<close>.
\<close>

record entry =
  entry_id :: jsval
  entry_description :: jsval
  entry_amount :: jsval
  entry_type :: jsval
  entry_entityName :: jsval
  entry_entryDate :: jsval
  entry_paymentMethod :: jsval
  entry_timestamp :: jsval

text \<open>A file handed to the browser for download: the blob, its type and the file name.\<close>

record download =
  filename :: string
  mimeType :: string
  content :: string

text \<open>
  The state variables of the component (\<^verbatim>\<open>useState\<close>), followed by the two effects that
  leave it: the documents passed to \<^verbatim>\<open>addDoc\<close> and the files downloaded. \<^verbatim>\<open>db\<close> tells
  whether the store handle has been set; \<^verbatim>\<open>userId\<close> is \<^verbatim>\<open>null\<close> until the identity
  provider answers.
\<close>

record app =
  db :: bool
  userId :: "string option"
  entries :: "entry list"
  type :: string
  specificDescription :: string
  specificEntityName :: string
  amount :: string
  entryDate :: string
  paymentMethod :: string
  balance :: jsnum
  message :: string
  created :: "entry list"
  downloads :: "download list"

section \<open>The balance\<close>

text \<open>
  \<^verbatim>\<open>calculateBalance\<close> (lines 108 to 118): a left-to-right \<^verbatim>\<open>reduce\<close> from 0 that adds
  the parsed amount of an \<^verbatim>\<open>ingreso\<close> or \<^verbatim>\<open>apoyo\<close> entry and subtracts the parsed
  amount of any other entry, then stores the total in \<^verbatim>\<open>balance\<close>.
\<close>

definition total :: "entry list \<Rightarrow> jsnum" where
  "total currentEntries =
     foldl (\<lambda>acc entry.
        let amountValue = parseFloat (entry_amount entry)
        in if entry_type entry = JStr ''ingreso'' \<or> entry_type entry = JStr ''apoyo''
           then jadd acc amountValue
           else jsub acc amountValue)
       (Fin 0) currentEntries"

definition calculateBalance :: "entry list \<Rightarrow> app \<Rightarrow> app" where
  "calculateBalance currentEntries s = s\<lparr>balance := total currentEntries\<rparr>"

text \<open>
  The right-hand side of the specification's equation, computed with the numbers of the
  program: the sum of the amounts of the income and support records minus the sum of the
  amounts of the expense records.
\<close>

definition jsum :: "jsnum list \<Rightarrow> jsnum" where
  "jsum xs = foldl jadd (Fin 0) xs"

definition amountOf :: "entry \<Rightarrow> jsnum" where
  "amountOf r = parseFloat (entry_amount r)"

definition specBalance :: "entry list \<Rightarrow> jsnum" where
  "specBalance rs =
     jsub (jsum (map amountOf
                   (filter (\<lambda>r. entry_type r = JStr ''ingreso'' \<or> entry_type r = JStr ''apoyo'') rs)))
          (jsum (map amountOf (filter (\<lambda>r. entry_type r = JStr ''gasto'') rs)))"

text \<open>
  The same difference in exact arithmetic, on the amounts as they are stored, and the sum
  of the magnitudes of the amounts.
\<close>

definition numberOf :: "jsval \<Rightarrow> rat" where
  "numberOf v = (case v of JNum (Fin x) \<Rightarrow> x | _ \<Rightarrow> 0)"

definition wholeNumber :: "jsval \<Rightarrow> bool" where
  "wholeNumber v = (case v of JNum (Fin x) \<Rightarrow> x = of_int \<lfloor>x\<rfloor> | _ \<Rightarrow> False)"

definition exactBalance :: "entry list \<Rightarrow> rat" where
  "exactBalance rs =
     sum_list (map (\<lambda>r. numberOf (entry_amount r))
                 (filter (\<lambda>r. entry_type r = JStr ''ingreso'' \<or> entry_type r = JStr ''apoyo'') rs))
     - sum_list (map (\<lambda>r. numberOf (entry_amount r))
                   (filter (\<lambda>r. entry_type r = JStr ''gasto'') rs))"

definition magnitudes :: "entry list \<Rightarrow> rat" where
  "magnitudes rs = sum_list (map (\<lambda>r. \<bar>numberOf (entry_amount r)\<bar>) rs)"

text \<open>A number that is a double: rounding leaves it as it is.\<close>

definition isDouble :: "rat \<Rightarrow> bool" where
  "isDouble x = (roundDouble x = Fin x)"

definition finiteNumber :: "jsval \<Rightarrow> bool" where
  "finiteNumber v = (case v of JNum (Fin _) \<Rightarrow> True | _ \<Rightarrow> False)"

text \<open>
  No step of the reduction rounds: the exact balance of every initial part of the list is
  a double.
\<close>

definition exactSteps :: "entry list \<Rightarrow> bool" where
  "exactSteps es = list_all (\<lambda>k. isDouble (exactBalance (take k es))) [0..<Suc (length es)]"

definition knownCategory :: "entry \<Rightarrow> bool" where
  "knownCategory r =
     (entry_type r = JStr ''ingreso'' \<or> entry_type r = JStr ''gasto'' \<or> entry_type r = JStr ''apoyo'')"

section \<open>Printing numbers\<close>

text \<open>
  \<^verbatim>\<open>Number.prototype.toString\<close>. The digits printed are those of the exact value, cut
  after twenty places behind the point; an engine prints the shortest digits that
  identify the double. Magnitudes of \<open>10\<^sup>2\<^sup>1\<close> and more, and below \<open>10\<^sup>-\<^sup>6\<close>, are
  printed with an exponent.
\<close>

primrec fracDigits :: "nat \<Rightarrow> rat \<Rightarrow> string" where
  "fracDigits 0 r = []"
| "fracDigits (Suc k) r =
     (if r = 0 then []
      else digitChar (nat \<lfloor>r * 10\<rfloor>) # fracDigits k (r * 10 - of_int \<lfloor>r * 10\<rfloor>))"

definition positional :: "rat \<Rightarrow> string" where
  "positional x =
     natToDigits (nat \<lfloor>x\<rfloor>) @
     (if frac x = 0 then [] else CHR ''.'' # fracDigits 20 (frac x))"

definition stripZeros :: "string \<Rightarrow> string" where
  "stripZeros ds = rev (dropWhile (\<lambda>c. c = CHR ''0'') (rev ds))"

definition expNotation :: "nat \<Rightarrow> string" where
  "expNotation n =
     (let ds = natToDigits n;
          m = stripZeros ds
      in (case m of
            [] \<Rightarrow> ''0''
          | d # rest \<Rightarrow> d # (if rest = [] then [] else CHR ''.'' # rest))
         @ ''e+'' @ natToDigits (length ds - 1))"

primrec leadExp :: "nat \<Rightarrow> rat \<Rightarrow> nat" where
  "leadExp 0 x = 0"
| "leadExp (Suc k) x = (if 1 \<le> x then 0 else Suc (leadExp k (x * 10)))"

definition positiveToString :: "rat \<Rightarrow> string" where
  "positiveToString x =
     (if 10 ^ 21 \<le> x then expNotation (nat \<lfloor>x\<rfloor>)
      else if x = 0 \<or> 1 / 10 ^ 6 \<le> x then positional x
      else (let e = leadExp 400 x in positional (x * 10 ^ e) @ ''e-'' @ natToDigits e))"

fun numberToString :: "jsnum \<Rightarrow> string" where
  "numberToString NaN = ''NaN''"
| "numberToString PInf = ''Infinity''"
| "numberToString NInf = ''-Infinity''"
| "numberToString (Fin r) = (if r < 0 then ''-'' else '''') @ positiveToString \<bar>r\<bar>"

text \<open>
  \<^verbatim>\<open>Number.prototype.toFixed(f)\<close>: NaN and the infinities print as such; a magnitude of
  \<open>10\<^sup>2\<^sup>1\<close> or more prints as \<^verbatim>\<open>toString\<close> does; otherwise the integer nearest to
  \<open>x * 10\<^sup>f\<close> (the larger one on a tie) is printed with a point before its last \<open>f\<close>
  digits, padded with zeros on the left to \<open>f + 1\<close> digits.
\<close>

fun toFixed :: "nat \<Rightarrow> jsnum \<Rightarrow> string" where
  "toFixed f NaN = ''NaN''"
| "toFixed f PInf = ''Infinity''"
| "toFixed f NInf = ''-Infinity''"
| "toFixed f (Fin r) =
     (let s = (if r < 0 then ''-'' else '''');
          x = \<bar>r\<bar>
      in if 10 ^ 21 \<le> x then s @ positiveToString x
         else
           (let n = nat \<lfloor>x * 10 ^ f + 1 / 2\<rfloor>;
                m = natToDigits n
            in if f \<noteq> 0 then
                 (let m' = replicate (Suc f - length m) (CHR ''0'') @ m;
                      k = length m'
                  in s @ take (k - f) m' @ ''.'' @ drop (k - f) m')
               else s @ m))"

declare toFixed.simps [simp del]

text \<open>The conversion of a value to a string, as a template literal applies it.\<close>

fun jsToString :: "jsval \<Rightarrow> string" where
  "jsToString Undefined = ''undefined''"
| "jsToString Null = ''null''"
| "jsToString (JBool b) = (if b then ''true'' else ''false'')"
| "jsToString (JNum n) = numberToString n"
| "jsToString (JStr s) = s"

section \<open>The environment\<close>

text \<open>
  What the component takes from its host: the two date formats of the browser
  (\<^verbatim>\<open>new Date(v).toLocaleDateString()\<close> in the browser's locale, and the long Spanish
  form asked for by the receipt), the clock (\<^verbatim>\<open>Date.now()\<close>, the milliseconds since the
  start of 1 January 1970 in UTC), the time zone of the browser (the minutes that its
  local time lies behind UTC: 360 in Mexico City), and whether the store accepts the next
  \<^verbatim>\<open>addDoc\<close>.
\<close>

record env =
  localeDate :: "jsval \<Rightarrow> string"
  longDate :: "jsval \<Rightarrow> string"
  nowMillis :: int
  tzOffsetMinutes :: int
  addDocOk :: bool

subsection \<open>toISOString\<close>

text \<open>
  The year, the month and the day of a day number (the days since 1 January 1970) in the
  proleptic Gregorian calendar, counted in eras of 400 years that start on 1 March.
\<close>

definition civil :: "int \<Rightarrow> int \<times> int \<times> int" where
  "civil days =
     (let z = days + 719468;
          era = z div 146097;
          doe = z mod 146097;
          yoe = (doe - doe div 1460 + doe div 36524 - doe div 146096) div 365;
          doy = doe - (365 * yoe + yoe div 4 - yoe div 100);
          mp = (5 * doy + 2) div 153;
          d = doy - (153 * mp + 2) div 5 + 1;
          m = (if mp < 10 then mp + 3 else mp - 9);
          y = yoe + era * 400 + (if m \<le> 2 then 1 else 0)
      in (y, m, d))"

text \<open>A number in at least \<open>w\<close> digits, with leading zeros.\<close>

definition pad :: "nat \<Rightarrow> int \<Rightarrow> string" where
  "pad w n = (let ds = natToDigits (nat n) in replicate (w - length ds) (CHR ''0'') @ ds)"

text \<open>Four digits for the years 0 to 9999, a sign and six digits for the others.\<close>

definition yearText :: "int \<Rightarrow> string" where
  "yearText y =
     (if 0 \<le> y \<and> y \<le> 9999 then pad 4 y
      else (if y < 0 then ''-'' else ''+'') @ pad 6 \<bar>y\<bar>)"

definition isoDate :: "int \<Rightarrow> string" where
  "isoDate ms =
     (case civil (ms div 86400000) of
        (y, m, d) \<Rightarrow> yearText y @ ''-'' @ pad 2 m @ ''-'' @ pad 2 d)"

definition isoTime :: "int \<Rightarrow> string" where
  "isoTime ms =
     (let t = ms mod 86400000
      in pad 2 (t div 3600000) @ '':'' @ pad 2 (t div 60000 mod 60) @ '':'' @
         pad 2 (t div 1000 mod 60) @ ''.'' @ pad 3 (t mod 1000))"

text \<open>
  \<^verbatim>\<open>new Date(ms).toISOString()\<close>: the date and the time of day in UTC, whatever the time
  zone of the browser is.
\<close>

definition toISOString :: "int \<Rightarrow> string" where
  "toISOString ms = isoDate ms @ ''T'' @ isoTime ms @ ''Z''"

text \<open>\<^verbatim>\<open>new Date().toISOString().split('T')[0]\<close>\<close>

definition today :: "env \<Rightarrow> string" where
  "today e = takeWhile (\<lambda>c. c \<noteq> CHR ''T'') (toISOString (nowMillis e))"

datatype js_error = TypeError

section \<open>The form\<close>

text \<open>
  The effect that runs when \<^verbatim>\<open>type\<close> has changed (lines 99 to 105), and the state
  setter behind the three radio buttons: setting the value the state already has changes
  nothing and runs no effect.
\<close>

definition typeEffect :: "env \<Rightarrow> app \<Rightarrow> app" where
  "typeEffect e s =
     s\<lparr>specificDescription := (if type s = ''apoyo'' then ''Apoyo'' else ''''),
       specificEntityName := '''',
       amount := '''',
       entryDate := today e,
       paymentMethod := ''Efectivo''\<rparr>"

definition setType :: "env \<Rightarrow> string \<Rightarrow> app \<Rightarrow> app" where
  "setType e t s = (if t = type s then s else typeEffect e (s\<lparr>type := t\<rparr>))"

definition msgInvalid :: string where
  "msgInvalid = ''Por favor, completa todos los campos requeridos y aseg'' @ [CHR 0xC3, CHR 0xBA] @ ''rate de que el monto sea v'' @ [CHR 0xC3, CHR 0xA1] @ ''lido.''"

definition msgNotReady :: string where
  "msgNotReady = ''La aplicaci'' @ [CHR 0xC3, CHR 0xB3] @ ''n no est'' @ [CHR 0xC3, CHR 0xA1] @ '' lista. Por favor, espera.''"

definition msgAdded :: string where
  "msgAdded = ''Registro a'' @ [CHR 0xC3, CHR 0xB1] @ ''adido exitosamente.''"

definition msgAddFailed :: string where
  "msgAddFailed = ''Error al a'' @ [CHR 0xC3, CHR 0xB1] @ ''adir el registro. Intenta de nuevo.''"

text \<open>
  \<^verbatim>\<open>addEntry\<close> (lines 121 to 156). The validation, then the readiness of the store
  handle and of the user, then the call of \<^verbatim>\<open>addDoc\<close> with \<^verbatim>\<open>newEntryData\<close>; the
  fields are reset when the store accepts the document.
\<close>

definition newEntryData :: "env \<Rightarrow> app \<Rightarrow> entry" where
  "newEntryData e s =
     \<lparr>entry_id = Undefined,
      entry_description = JStr (specificDescription s),
      entry_amount = JNum (parseFloatS (amount s)),
      entry_type = JStr (type s),
      entry_entityName = JStr (specificEntityName s),
      entry_entryDate = JStr (entryDate s),
      entry_paymentMethod = JStr (paymentMethod s),
      entry_timestamp = JNum (Fin (of_int (nowMillis e)))\<rparr>"

definition addEntry :: "env \<Rightarrow> app \<Rightarrow> app" where
  "addEntry e s =
     (if specificDescription s = [] \<or> amount s = [] \<or> jle (parseFloatS (amount s)) (Fin 0)
         \<or> entryDate s = [] \<or> specificEntityName s = []
      then s\<lparr>message := msgInvalid\<rparr>
      else if \<not> db s \<or> (case userId s of None \<Rightarrow> True | Some u \<Rightarrow> u = [])
      then s\<lparr>message := msgNotReady\<rparr>
      else
        (let s1 = s\<lparr>created := created s @ [newEntryData e s]\<rparr>
         in if addDocOk e
            then s1\<lparr>message := msgAdded,
                    specificDescription := (if type s = ''apoyo'' then ''Apoyo'' else ''''),
                    specificEntityName := '''',
                    amount := '''',
                    entryDate := today e,
                    paymentMethod := ''Efectivo''\<rparr>
            else s1\<lparr>message := msgAddFailed\<rparr>))"

section \<open>The receipt\<close>

text \<open>The fixed text of the template literal of \<^verbatim>\<open>generateReceipt\<close>, between its holes.\<close>

definition receiptPart0 :: string where
  "receiptPart0 =
     ''\<newline>'' @
     ''      <!DOCTYPE html>\<newline>'' @
     ''      <html lang=\"es\">\<newline>'' @
     ''      <head>\<newline>'' @
     ''          <meta charset=\"UTF-8\">\<newline>'' @
     ''          <meta name=\"viewport\" content=\"width=device-width, initial-scale=1.0\">\<newline>'' @
     ''          <title>Recibo de Apoyo - ''"

definition receiptPart1 :: string where
  "receiptPart1 =
     ''</title>\<newline>'' @
     ''          <style>\<newline>'' @
     ''              body { font-family: 'Inter', sans-serif; line-height: 1.6; color: #333; margin: 20px; }\<newline>'' @
     ''              .container { max-width: 600px; margin: 0 auto; padding: 30px; border: 1px solid #eee; box-shadow: 0 0 10px rgba(0,0,0,0.05); }\<newline>'' @
     ''              h1 { text-align: center; color: #4F46E5; margin-bottom: 30px; }\<newline>'' @
     ''              .details p { margin: 5px 0; }\<newline>'' @
     ''              .amount { font-size: 2em; font-weight: bold; text-align: center; color: #10B981; margin-top: 30px; }\<newline>'' @
     ''              .footer { text-align: center; margin-top: 50px; font-size: 0.9em; color: #777; }\<newline>'' @
     ''          </style>\<newline>'' @
     ''      </head>\<newline>'' @
     ''      <body>\<newline>'' @
     ''          <div class=\"container\">\<newline>'' @
     ''              <h1>Recibo de Apoyo</h1>\<newline>'' @
     ''              <div class=\"details\">\<newline>'' @
     ''                  <p><strong>Fecha:</strong> ''"

definition receiptPart2 :: string where
  "receiptPart2 =
     ''</p>\<newline>'' @
     ''                  <p><strong>Concepto:</strong> ''"

definition receiptPart3 :: string where
  "receiptPart3 =
     ''</p>\<newline>'' @
     ''                  <p><strong>Nombre:</strong> ''"

definition receiptPart4 :: string where
  "receiptPart4 =
     ''</p>\<newline>'' @
     ''                  <p><strong>Tipo de Apoyo:</strong> ''"

definition receiptPart5 :: string where
  "receiptPart5 =
     ''</p>\<newline>'' @
     ''              </div>\<newline>'' @
     ''              <div class=\"amount\">\<newline>'' @
     ''                  Monto: $''"

definition receiptPart6 :: string where
  "receiptPart6 =
     '' MXN\<newline>'' @
     ''              </div>\<newline>'' @
     ''              <div class=\"footer\">\<newline>'' @
     ''                  <p>Recibo generado autom'' @ [CHR 0xC3, CHR 0xA1] @ ''ticamente por la aplicaci'' @ [CHR 0xC3, CHR 0xB3] @ ''n.</p>\<newline>'' @
     ''              </div>\<newline>'' @
     ''          </div>\<newline>'' @
     ''      </body>\<newline>'' @
     ''      </html>\<newline>'' @
     ''    ''"


text \<open>\<^verbatim>\<open>s.replace(/\s/g, '_')\<close>\<close>

function replaceSpaces :: "string \<Rightarrow> string" where
  "replaceSpaces s =
     (if s = [] then []
      else if wsLen s = 0 then hd s # replaceSpaces (tl s)
      else CHR ''_'' # replaceSpaces (drop (wsLen s) s))"
  by pat_completeness auto
termination
proof (relation "measure length")
  show "wf (measure length)" by simp
next
  fix s :: string
  assume "s \<noteq> []"
  then show "(tl s, s) \<in> measure length"
    by (cases s) simp_all
next
  fix s :: string
  assume ne: "s \<noteq> []" and ws: "wsLen s \<noteq> 0"
  then have "0 < length s" and "0 < wsLen s"
    by simp_all
  then have "length s - wsLen s < length s"
    by (rule diff_less [rotated])
  then show "(drop (wsLen s) s, s) \<in> measure length"
    by simp
qed

declare replaceSpaces.simps [simp del]

definition msgReceipt :: string where
  "msgReceipt = ''Recibo de apoyo generado y descargado.''"

text \<open>
  \<^verbatim>\<open>generateReceipt\<close> (lines 174 to 222). Calling \<^verbatim>\<open>toFixed\<close> on an amount that is not a
  number, or \<^verbatim>\<open>replace\<close> on a description that is not a string, throws a TypeError
  before anything is downloaded.
\<close>

definition receiptContent :: "env \<Rightarrow> entry \<Rightarrow> string \<Rightarrow> string" where
  "receiptContent e entry amountText =
     receiptPart0 @ jsToString (entry_description entry) @
     receiptPart1 @ longDate e (entry_entryDate entry) @
     receiptPart2 @ jsToString (entry_description entry) @
     receiptPart3 @ jsToString (entry_entityName entry) @
     receiptPart4 @ jsToString (entry_paymentMethod entry) @
     receiptPart5 @ amountText @
     receiptPart6"

definition generateReceipt :: "env \<Rightarrow> entry \<Rightarrow> app \<Rightarrow> js_error + app" where
  "generateReceipt e entry s =
     (case entry_amount entry of
        JNum n \<Rightarrow>
          (case entry_description entry of
             JStr d \<Rightarrow>
               Inr (s\<lparr>downloads := downloads s @
                        [\<lparr>filename = ''recibo_apoyo_'' @ replaceSpaces d @ ''_'' @
                                      jsToString (entry_entryDate entry) @ ''.html'',
                          mimeType = ''text/html'',
                          content = receiptContent e entry (toFixed 2 n)\<rparr>],
                      message := msgReceipt\<rparr>)
           | _ \<Rightarrow> Inl TypeError)
      | _ \<Rightarrow> Inl TypeError)"

text \<open>The button \<^verbatim>\<open>Generar Recibo\<close> of the support form (line 568).\<close>

definition clickGenerarRecibo :: "env \<Rightarrow> app \<Rightarrow> js_error + app" where
  "clickGenerarRecibo e s = generateReceipt e (newEntryData e s) s"

section \<open>The export\<close>

definition header :: "string list" where
  "header = [''ID'', ''Fecha'', ''Descripci'' @ [CHR 0xC3, CHR 0xB3] @ ''n'', ''Monto'', ''Tipo'', ''Entidad'',
             ''M'' @ [CHR 0xC3, CHR 0xA9] @ ''todo de Pago'']"

text \<open>\<^verbatim>\<open>Array.prototype.join\<close>: \<^verbatim>\<open>undefined\<close> and \<^verbatim>\<open>null\<close> elements print as nothing.\<close>

fun joinWith :: "string \<Rightarrow> string list \<Rightarrow> string" where
  "joinWith sep [] = []"
| "joinWith sep [x] = x"
| "joinWith sep (x # y # ys) = x @ sep @ joinWith sep (y # ys)"

fun elemToString :: "jsval \<Rightarrow> string" where
  "elemToString Undefined = []"
| "elemToString Null = []"
| "elemToString v = jsToString v"

text \<open>\<^verbatim>\<open>s.replace(/"/g, '""')\<close>\<close>

definition replaceQuotes :: "string \<Rightarrow> string" where
  "replaceQuotes s = concat (map (\<lambda>c. if c = CHR 0x22 then [CHR 0x22, CHR 0x22] else [c]) s)"

text \<open>
  The three guarded cells of a row (lines 253, 254 and 256). The guard tests truthiness
  only: a truthy value of the wrong type has no \<^verbatim>\<open>replace\<close> or \<^verbatim>\<open>toFixed\<close> method, and
  the call throws.
\<close>

definition quotedCell :: "jsval \<Rightarrow> js_error + string" where
  "quotedCell v =
     (if truthy v
      then (case v of JStr t \<Rightarrow> Inr ([CHR 0x22] @ replaceQuotes t @ [CHR 0x22])
            | _ \<Rightarrow> Inl TypeError)
      else Inr [CHR 0x22, CHR 0x22])"

definition amountCell :: "jsval \<Rightarrow> js_error + string" where
  "amountCell v =
     (if truthy v
      then (case v of JNum n \<Rightarrow> Inr (toFixed 2 n) | _ \<Rightarrow> Inl TypeError)
      else Inr ''0.00'')"

definition csvRow :: "env \<Rightarrow> entry \<Rightarrow> js_error + string list" where
  "csvRow e entry =
     (case quotedCell (entry_description entry) of
        Inl err \<Rightarrow> Inl err
      | Inr d \<Rightarrow>
          (case amountCell (entry_amount entry) of
             Inl err \<Rightarrow> Inl err
           | Inr a \<Rightarrow>
               (case quotedCell (entry_entityName entry) of
                  Inl err \<Rightarrow> Inl err
                | Inr n \<Rightarrow>
                    Inr [elemToString (entry_id entry),
                         localeDate e (entry_timestamp entry),
                         d,
                         a,
                         elemToString (entry_type entry),
                         n,
                         elemToString
                           (if truthy (entry_paymentMethod entry)
                            then entry_paymentMethod entry else JStr '''')])))"

text \<open>\<^verbatim>\<open>entries.map\<close>: the first row that throws ends the export.\<close>

fun csvRows :: "env \<Rightarrow> entry list \<Rightarrow> js_error + string list list" where
  "csvRows e [] = Inr []"
| "csvRows e (x # xs) =
     (case csvRow e x of
        Inl err \<Rightarrow> Inl err
      | Inr r \<Rightarrow> (case csvRows e xs of Inl err \<Rightarrow> Inl err | Inr rs \<Rightarrow> Inr (r # rs)))"

definition csvContent :: "string list list \<Rightarrow> string" where
  "csvContent rows =
     joinWith '','' header @ ''\<newline>'' @ joinWith ''\<newline>'' (map (joinWith '','') rows)"

definition msgNothing :: string where
  "msgNothing = ''No hay registros para exportar.''"

definition msgExported :: string where
  "msgExported = ''Registros exportados a CSV.''"

text \<open>\<^verbatim>\<open>exportToCSV\<close> (lines 241 to 273).\<close>

definition exportToCSV :: "env \<Rightarrow> app \<Rightarrow> js_error + app" where
  "exportToCSV e s =
     (if length (entries s) = 0 then Inr (s\<lparr>message := msgNothing\<rparr>)
      else
        (case csvRows e (entries s) of
           Inl err \<Rightarrow> Inl err
         | Inr rows \<Rightarrow>
             Inr (s\<lparr>downloads := downloads s @
                      [\<lparr>filename = ''registros_contables.csv'',
                        mimeType = ''text/csv;charset=utf-8;'',
                        content = csvContent rows\<rparr>],
                    message := msgExported\<rparr>)))"

text \<open>
  The list of records (lines 592 to 604). Every item prints its amount with
  \<^verbatim>\<open>entry.amount.toFixed(2)\<close>, unguarded: an amount that is not a number has no such
  method, the call throws and nothing is rendered. The other fields of an item are
  interpolated and print whatever they hold.
\<close>

definition listItemAmount :: "entry \<Rightarrow> js_error + string" where
  "listItemAmount entry =
     (case entry_amount entry of JNum n \<Rightarrow> Inr (toFixed 2 n) | _ \<Rightarrow> Inl TypeError)"

text \<open>
  The list renders when the amount of every item prints; the order of the items plays no
  part in that. Only then is the export button on the screen.
\<close>

definition rendersList :: "entry list \<Rightarrow> bool" where
  "rendersList es =
     list_all (\<lambda>entry. case listItemAmount entry of Inr _ \<Rightarrow> True | Inl _ \<Rightarrow> False) es"

text \<open>Sample records: an income of 100, an expense of 40, a support of 20.\<close>

definition income100 :: entry where
  "income100 = \<lparr>entry_id = JStr ''a1'', entry_description = JStr ''Sueldo'',
     entry_amount = JNum (Fin 100), entry_type = JStr ''ingreso'',
     entry_entityName = JStr ''Acme'', entry_entryDate = JStr ''2024-01-01'',
     entry_paymentMethod = JStr ''Efectivo'', entry_timestamp = JNum (Fin 1704067200000)\<rparr>"

definition expense40 :: entry where
  "expense40 = \<lparr>entry_id = JStr ''a2'', entry_description = JStr ''Comida'',
     entry_amount = JNum (Fin 40), entry_type = JStr ''gasto'',
     entry_entityName = JStr ''Tienda'', entry_entryDate = JStr ''2024-01-02'',
     entry_paymentMethod = JStr ''Tarjeta'', entry_timestamp = JNum (Fin 1704153600000)\<rparr>"

definition support20 :: entry where
  "support20 = \<lparr>entry_id = JStr ''a3'', entry_description = JStr ''Apoyo'',
     entry_amount = JNum (Fin 20), entry_type = JStr ''apoyo'',
     entry_entityName = JStr ''Luis'', entry_entryDate = JStr ''2024-01-03'',
     entry_paymentMethod = JStr ''Transferencia'', entry_timestamp = JNum (Fin 1704240000000)\<rparr>"

text \<open>An income and an expense of \<open>2\<^sup>5\<^sup>3\<close>, and an income of 1.\<close>

definition incomeBig :: entry where
  "incomeBig = \<lparr>entry_id = JStr ''b1'', entry_description = JStr ''Venta'',
     entry_amount = JNum (Fin 9007199254740992), entry_type = JStr ''ingreso'',
     entry_entityName = JStr ''Acme'', entry_entryDate = JStr ''2024-01-01'',
     entry_paymentMethod = JStr ''Transferencia'', entry_timestamp = JNum (Fin 1704067200000)\<rparr>"

definition expenseBig :: entry where
  "expenseBig = \<lparr>entry_id = JStr ''b2'', entry_description = JStr ''Compra'',
     entry_amount = JNum (Fin 9007199254740992), entry_type = JStr ''gasto'',
     entry_entityName = JStr ''Acme'', entry_entryDate = JStr ''2024-01-02'',
     entry_paymentMethod = JStr ''Tarjeta'', entry_timestamp = JNum (Fin 1704153600000)\<rparr>"

definition incomeOne :: entry where
  "incomeOne = \<lparr>entry_id = JStr ''b3'', entry_description = JStr ''Propina'',
     entry_amount = JNum (Fin 1), entry_type = JStr ''ingreso'',
     entry_entityName = JStr ''Luis'', entry_entryDate = JStr ''2024-01-03'',
     entry_paymentMethod = JStr ''Efectivo'', entry_timestamp = JNum (Fin 1704240000000)\<rparr>"

text \<open>
  An income of 0.1, an expense of 0.3 and an income of 0.2: the amounts are the doubles
  nearest to these decimals, \<open>3602879701896397 / 2\<^sup>5\<^sup>5\<close>, \<open>5404319552844595 / 2\<^sup>5\<^sup>4\<close> and
  \<open>3602879701896397 / 2\<^sup>5\<^sup>4\<close>.
\<close>

definition income01 :: entry where
  "income01 = \<lparr>entry_id = JStr ''c1'', entry_description = JStr ''Propina'',
     entry_amount = JNum (Fin (3602879701896397 / 36028797018963968)), entry_type = JStr ''ingreso'',
     entry_entityName = JStr ''Luis'', entry_entryDate = JStr ''2024-01-01'',
     entry_paymentMethod = JStr ''Efectivo'', entry_timestamp = JNum (Fin 1704067200000)\<rparr>"

definition expense03 :: entry where
  "expense03 = \<lparr>entry_id = JStr ''c2'', entry_description = JStr ''Copia'',
     entry_amount = JNum (Fin (5404319552844595 / 18014398509481984)), entry_type = JStr ''gasto'',
     entry_entityName = JStr ''Tienda'', entry_entryDate = JStr ''2024-01-02'',
     entry_paymentMethod = JStr ''Efectivo'', entry_timestamp = JNum (Fin 1704153600000)\<rparr>"

definition income02 :: entry where
  "income02 = \<lparr>entry_id = JStr ''c3'', entry_description = JStr ''Propina'',
     entry_amount = JNum (Fin (3602879701896397 / 18014398509481984)), entry_type = JStr ''ingreso'',
     entry_entityName = JStr ''Luis'', entry_entryDate = JStr ''2024-01-03'',
     entry_paymentMethod = JStr ''Efectivo'', entry_timestamp = JNum (Fin 1704240000000)\<rparr>"

definition abcAmount :: entry where
  "abcAmount = \<lparr>entry_id = JStr ''a4'', entry_description = JStr ''Venta'',
     entry_amount = JStr ''abc'', entry_type = JStr ''ingreso'',
     entry_entityName = JStr ''Acme'', entry_entryDate = JStr ''2024-01-04'',
     entry_paymentMethod = JStr ''Efectivo'', entry_timestamp = JNum (Fin 1704326400000)\<rparr>"

text \<open>
  The state of the component when it is mounted, with the date of that day: the initial
  values given to \<^verbatim>\<open>useState\<close> (lines 15 to 32).
\<close>

definition initialApp :: "string \<Rightarrow> app" where
  "initialApp day = \<lparr>db = False, userId = None, entries = [], type = ''ingreso'',
     specificDescription = '''', specificEntityName = '''', amount = '''',
     entryDate = day, paymentMethod = ''Efectivo'', balance = Fin 0, message = '''',
     created = [], downloads = []\<rparr>"

section \<open>Sample environment and form states\<close>

text \<open>
  A browser in the \<^verbatim>\<open>en-US\<close> locale and the UTC time zone on 3 January 2024, as far as
  the samples need it: the dates it prints for their time stamps, and a store that accepts
  the document.
\<close>

definition sampleEnv :: env where
  "sampleEnv =
     \<lparr>localeDate = (\<lambda>v. if v = JNum (Fin 1704067200000) then ''1/1/2024''
                         else if v = JNum (Fin 1704153600000) then ''1/2/2024''
                         else if v = JNum (Fin 1704240000000) then ''1/3/2024''
                         else if v = JNum (Fin 1704326400000) then ''1/4/2024''
                         else ''Invalid Date''),
      longDate = (\<lambda>v. if v = JStr ''2024-01-03'' then ''3 de enero de 2024''
                       else ''Invalid Date''),
      nowMillis = 1704240000000,
      tzOffsetMinutes = 0,
      addDocOk = True\<rparr>"

text \<open>
  The same browser in Mexico City, six hours behind UTC, at 20:00 of 2 January 2024: the
  clock reads 02:00 of 3 January in UTC.
\<close>

definition eveningEnv :: env where
  "eveningEnv =
     \<lparr>localeDate = (\<lambda>v. if v = JNum (Fin 1704067200000) then ''12/31/2023''
                         else if v = JNum (Fin 1704153600000) then ''1/1/2024''
                         else if v = JNum (Fin 1704240000000) then ''1/2/2024''
                         else if v = JNum (Fin 1704326400000) then ''1/3/2024''
                         else ''Invalid Date''),
      longDate = (\<lambda>v. if v = JStr ''2024-01-03'' then ''2 de enero de 2024''
                       else ''Invalid Date''),
      nowMillis = 1704247200000,
      tzOffsetMinutes = 360,
      addDocOk = True\<rparr>"

text \<open>
  The current calendar date of the user: the date that the clock of the browser shows in
  its own time zone, written as the date field of the form writes it.
\<close>

definition localDate :: "env \<Rightarrow> string" where
  "localDate e = isoDate (nowMillis e - tzOffsetMinutes e * 60000)"

text \<open>The income form filled in with valid values, before and after the session is ready.\<close>

definition filledForm :: app where
  "filledForm = (initialApp ''2024-01-03'')
     \<lparr>specificDescription := ''Sueldo'', specificEntityName := ''Acme'', amount := ''100''\<rparr>"

definition readyForm :: app where
  "readyForm = filledForm\<lparr>db := True, userId := Some ''u1''\<rparr>"

text \<open>
  The third validation rule of the specification, ``amount parses to a number > 0'', read
  with \<^verbatim>\<open>parseFloat\<close>.
\<close>

definition parsesPositive :: "string \<Rightarrow> bool" where
  "parsesPositive a =
     (case parseFloatS a of Fin r \<Rightarrow> 0 < r | PInf \<Rightarrow> True | NInf \<Rightarrow> False | NaN \<Rightarrow> False)"

text \<open>Whether the session can reach the store: the second test of \<^verbatim>\<open>addEntry\<close>.\<close>

definition sessionReady :: "app \<Rightarrow> bool" where
  "sessionReady s = (db s \<and> (case userId s of None \<Rightarrow> False | Some u \<Rightarrow> u \<noteq> []))"

section \<open>Formats named by the specification\<close>

text \<open>
  ``Formatted with exactly two decimal places'': an optional minus sign, at least one digit,
  a point, and two digits.
\<close>

definition twoDecimals :: "string \<Rightarrow> bool" where
  "twoDecimals t =
     (let u = (if take 1 t = ''-'' then drop 1 t else t);
          ip = take (length u - 3) u;
          fr = drop (length u - 3) u
      in ip \<noteq> [] \<and> list_all isDigit ip \<and>
         (case fr of
            [p, a, b] \<Rightarrow> p = CHR ''.'' \<and> isDigit a \<and> isDigit b
          | _ \<Rightarrow> False))"

text \<open>A support of 50.5, a support of \<open>10\<^sup>2\<^sup>1\<close>, and a support whose texts contain markup.\<close>

definition support50 :: entry where
  "support50 = \<lparr>entry_id = Undefined, entry_description = JStr ''Apoyo'',
     entry_amount = JNum (Fin (101 / 2)), entry_type = JStr ''apoyo'',
     entry_entityName = JStr ''Luis'', entry_entryDate = JStr ''2024-01-03'',
     entry_paymentMethod = JStr ''Efectivo'', entry_timestamp = JNum (Fin 1704240000000)\<rparr>"

definition supportBig :: entry where
  "supportBig = \<lparr>entry_id = JStr ''a5'', entry_description = JStr ''Apoyo'',
     entry_amount = JNum (Fin (10 ^ 21)), entry_type = JStr ''apoyo'',
     entry_entityName = JStr ''Luis'', entry_entryDate = JStr ''2024-01-03'',
     entry_paymentMethod = JStr ''Efectivo'', entry_timestamp = JNum (Fin 1704240000000)\<rparr>"

definition supportMarkup :: entry where
  "supportMarkup = \<lparr>entry_id = Undefined, entry_description = JStr ''<b>Apoyo</b>'',
     entry_amount = JNum (Fin 20), entry_type = JStr ''apoyo'',
     entry_entityName = JStr ''<i>Luis</i>'', entry_entryDate = JStr ''2024-01-03'',
     entry_paymentMethod = JStr ''<u>Efectivo</u>'', entry_timestamp = JNum (Fin 1704240000000)\<rparr>"

section \<open>The rows of the export, as the specification describes them\<close>

definition isStr :: "jsval \<Rightarrow> bool" where
  "isStr v = (case v of JStr _ \<Rightarrow> True | _ \<Rightarrow> False)"

definition isNum :: "jsval \<Rightarrow> bool" where
  "isNum v = (case v of JNum _ \<Rightarrow> True | _ \<Rightarrow> False)"

text \<open>
  A record that the export can print: its description and its name are texts or falsy
  (missing, \<^verbatim>\<open>null\<close>, empty, \<^verbatim>\<open>false\<close>, 0, NaN), and its amount is a number or falsy.
\<close>

definition exportable :: "entry \<Rightarrow> bool" where
  "exportable r =
     ((isStr (entry_description r) \<or> \<not> truthy (entry_description r)) \<and>
      (isNum (entry_amount r) \<or> \<not> truthy (entry_amount r)) \<and>
      (isStr (entry_entityName r) \<or> \<not> truthy (entry_entityName r)))"

text \<open>The text of a field, empty when the field holds no text.\<close>

definition textOf :: "jsval \<Rightarrow> string" where
  "textOf v = (case v of JStr t \<Rightarrow> t | _ \<Rightarrow> [])"

text \<open>A field wrapped in double quotes, every double quote inside doubled.\<close>

definition csvQuote :: "string \<Rightarrow> string" where
  "csvQuote t = [CHR 0x22] @ replaceQuotes t @ [CHR 0x22]"

text \<open>The amount column: \<^verbatim>\<open>toFixed(2)\<close> of a number other than 0 and NaN, \<^verbatim>\<open>0.00\<close> otherwise.\<close>

definition amountText :: "jsval \<Rightarrow> string" where
  "amountText v = (case v of JNum n \<Rightarrow> if truthy v then toFixed 2 n else ''0.00'' | _ \<Rightarrow> ''0.00'')"

definition methodText :: "jsval \<Rightarrow> string" where
  "methodText v = (if truthy v then elemToString v else [])"

text \<open>
  The seven columns of the row of a record: identifier, locale date of the creation time
  stamp, quoted description, amount, category, quoted name, payment method.
\<close>

definition rowLine :: "env \<Rightarrow> entry \<Rightarrow> string" where
  "rowLine e r =
     elemToString (entry_id r) @ '','' @
     localeDate e (entry_timestamp r) @ '','' @
     csvQuote (textOf (entry_description r)) @ '','' @
     amountText (entry_amount r) @ '','' @
     elemToString (entry_type r) @ '','' @
     csvQuote (textOf (entry_entityName r)) @ '','' @
     methodText (entry_paymentMethod r)"

definition headerLine :: string where
  "headerLine = ''ID,Fecha,Descripci'' @ [CHR 0xC3, CHR 0xB3] @ ''n,Monto,Tipo,Entidad,M'' @
     [CHR 0xC3, CHR 0xA9] @ ''todo de Pago''"

text \<open>An amount whose column has two decimal places: falsy, or a number below \<open>10\<^sup>2\<^sup>1\<close> in magnitude.\<close>

definition amountBelow :: "jsval \<Rightarrow> bool" where
  "amountBelow v = (case v of JNum (Fin x) \<Rightarrow> \<bar>x\<bar> < 10 ^ 21 | JNum NaN \<Rightarrow> True
                    | JNum _ \<Rightarrow> False | _ \<Rightarrow> \<not> truthy v)"

text \<open>
  A record with the amount 0 and no description, name and payment method, and a record
  whose description is the number 2024.
\<close>

definition bareEntry :: entry where
  "bareEntry = \<lparr>entry_id = JStr ''a7'', entry_description = Undefined,
     entry_amount = JNum (Fin 0), entry_type = JStr ''gasto'',
     entry_entityName = Undefined, entry_entryDate = Undefined,
     entry_paymentMethod = Undefined, entry_timestamp = JNum (Fin 1704326400000)\<rparr>"

definition numberedEntry :: entry where
  "numberedEntry = \<lparr>entry_id = JStr ''a6'', entry_description = JNum (Fin 2024),
     entry_amount = JNum (Fin 100), entry_type = JStr ''ingreso'',
     entry_entityName = JStr ''Acme'', entry_entryDate = JStr ''2024-01-04'',
     entry_paymentMethod = JStr ''Efectivo'', entry_timestamp = JNum (Fin 1704326400000)\<rparr>"

text \<open>A record whose description and name contain commas and double quotes.\<close>

definition quotedEntry :: entry where
  "quotedEntry = \<lparr>entry_id = JStr ''a8'', entry_description = JStr ''Pago \"extra\", enero'',
     entry_amount = JNum (Fin (25 / 2)), entry_type = JStr ''gasto'',
     entry_entityName = JStr ''Acme, S.A.'', entry_entryDate = JStr ''2024-01-04'',
     entry_paymentMethod = JStr ''Tarjeta'', entry_timestamp = JNum (Fin 1704326400000)\<rparr>"

definition withEntries :: "entry list \<Rightarrow> app" where
  "withEntries es = (initialApp ''2024-01-03'')\<lparr>entries := es\<rparr>"

section \<open>Reading the exported text back\<close>

text \<open>
  A reader for the format the specification documents: fields separated by commas, rows
  separated by line feeds, a field that starts with a double quote running to the closing
  double quote, with a doubled double quote standing for one.
\<close>

datatype csvMode = FieldStart | Unquoted | Quoted | QuoteSeen

fun csvParse :: "csvMode \<Rightarrow> string \<Rightarrow> string list \<Rightarrow> string \<Rightarrow> string list list" where
  "csvParse m f r [] = [r @ [f]]"
| "csvParse FieldStart f r (c # cs) =
     (if c = CHR 0x22 then csvParse Quoted f r cs
      else if c = CHR '','' then csvParse FieldStart [] (r @ [f]) cs
      else if c = CHR 0x0A then (r @ [f]) # csvParse FieldStart [] [] cs
      else csvParse Unquoted (f @ [c]) r cs)"
| "csvParse Unquoted f r (c # cs) =
     (if c = CHR '','' then csvParse FieldStart [] (r @ [f]) cs
      else if c = CHR 0x0A then (r @ [f]) # csvParse FieldStart [] [] cs
      else csvParse Unquoted (f @ [c]) r cs)"
| "csvParse Quoted f r (c # cs) =
     (if c = CHR 0x22 then csvParse QuoteSeen f r cs
      else csvParse Quoted (f @ [c]) r cs)"
| "csvParse QuoteSeen f r (c # cs) =
     (if c = CHR 0x22 then csvParse Quoted (f @ [c]) r cs
      else if c = CHR '','' then csvParse FieldStart [] (r @ [f]) cs
      else if c = CHR 0x0A then (r @ [f]) # csvParse FieldStart [] [] cs
      else csvParse Unquoted (f @ [c]) r cs)"

definition parseCSV :: "string \<Rightarrow> string list list" where
  "parseCSV t = csvParse FieldStart [] [] t"

text \<open>A column written without quotes reads back as it is when it has no comma and no line feed and does not start with a double quote.\<close>

definition plainCell :: "string \<Rightarrow> bool" where
  "plainCell t = (CHR '','' \<notin> set t \<and> CHR 0x0A \<notin> set t \<and> take 1 t \<noteq> [CHR 0x22])"

definition plainColumns :: "env \<Rightarrow> entry \<Rightarrow> bool" where
  "plainColumns e r =
     (plainCell (elemToString (entry_id r)) \<and>
      plainCell (localeDate e (entry_timestamp r)) \<and>
      plainCell (elemToString (entry_type r)) \<and>
      plainCell (methodText (entry_paymentMethod r)))"

text \<open>The fields of the row of a record, as a reader should find them.\<close>

definition rowFields :: "env \<Rightarrow> entry \<Rightarrow> string list" where
  "rowFields e r =
     [elemToString (entry_id r),
      localeDate e (entry_timestamp r),
      textOf (entry_description r),
      amountText (entry_amount r),
      elemToString (entry_type r),
      textOf (entry_entityName r),
      methodText (entry_paymentMethod r)]"

section \<open>Rounding\<close>

lemma bitLength_pos: "0 < n \<Longrightarrow> 0 < bitLength n"
  by (subst bitLength.simps) simp

lemma bitLength_bound: "n < 2 ^ k \<Longrightarrow> bitLength n \<le> k"
proof (induction k arbitrary: n)
  case 0
  then show ?case by (subst bitLength.simps) simp
next
  case (Suc k)
  show ?case
  proof (cases "n = 0")
    case True
    then show ?thesis by (subst bitLength.simps) simp
  next
    case False
    from Suc.prems have "n div 2 < 2 ^ k"
      by simp
    with Suc.IH have "bitLength (n div 2) \<le> k"
      by blast
    with False show ?thesis
      by (subst bitLength.simps) simp
  qed
qed

lemma roundHalfEven_int: "roundHalfEven (of_int k) = k"
  by (simp add: roundHalfEven_def)

text \<open>A whole number below \<open>2\<^sup>5\<^sup>3\<close> in magnitude is a double: rounding leaves it as it is.\<close>

lemma roundDouble_whole:
  assumes "x \<in> \<int>" and "\<bar>x\<bar> < 2 ^ 53"
  shows "roundDouble x = Fin x"
proof (cases "x = 0")
  case True
  then show ?thesis by (simp add: roundDouble_def)
next
  case False
  from assms(1) obtain n :: int where n: "x = of_int n"
    by (auto elim: Ints_cases)
  define a where "a = nat \<bar>n\<bar>"
  from False n have a_pos: "0 < a"
    by (simp add: a_def)
  have abs_x: "\<bar>x\<bar> = of_nat a"
    by (simp add: n a_def)
  from assms(2) have "(of_nat a :: rat) < of_nat (2 ^ 53)"
    by (simp add: abs_x)
  then have a_lt: "a < 2 ^ 53"
    by (simp only: of_nat_less_iff)
  have one_le: "(1::rat) \<le> \<bar>x\<bar>"
    using a_pos by (simp add: abs_x)
  define b where "b = bitLength a"
  have b1: "1 \<le> b" and b53: "b \<le> 53"
    using bitLength_pos [OF a_pos] bitLength_bound [OF a_lt] by (simp_all add: b_def)
  have lg: "log2floor \<bar>x\<bar> = int b - 1"
    using one_le by (simp add: log2floor_def abs_x b_def)
  define j where "j = 53 - b"
  have e: "max (log2floor \<bar>x\<bar>) (- 1022) - 52 = - int j"
    using b1 b53 by (simp add: lg j_def)
  have q: "pow2 (- int j) = 1 / 2 ^ j"
    by (simp add: pow2_def)
  have t: "\<bar>x\<bar> / (1 / 2 ^ j) = of_int (int a * 2 ^ j)"
    by (simp add: abs_x)
  have m: "of_int (roundHalfEven (\<bar>x\<bar> / (1 / 2 ^ j))) * (1 / 2 ^ j) = \<bar>x\<bar>"
    unfolding t roundHalfEven_int by (simp add: abs_x)
  have rm: "roundMagnitude \<bar>x\<bar> = \<bar>x\<bar>"
    unfolding roundMagnitude_def Let_def e q m ..
  have big: "\<not> pow2 1024 \<le> \<bar>x\<bar>"
  proof -
    have "(2::rat) ^ 53 \<le> 2 ^ 1024"
      by (rule power_increasing) simp_all
    with assms(2) show ?thesis
      by (simp add: pow2_def)
  qed
  have "(if x < 0 then - \<bar>x\<bar> else \<bar>x\<bar>) = x"
    by simp
  with False big show ?thesis
    by (simp only: roundDouble_def Let_def rm if_False)
qed

lemma roundDouble_0: "roundDouble 0 = Fin 0"
  by (simp add: roundDouble_def)

text \<open>\<open>2\<^sup>5\<^sup>3\<close> is a double, \<open>2\<^sup>5\<^sup>3 + 1\<close> is not: it lies halfway between two doubles and is rounded to \<open>2\<^sup>5\<^sup>3\<close>.\<close>

lemma bitLength_2p53:
  "bitLength 9007199254740992 = 54" "bitLength 9007199254740993 = 54"
  by (simp_all add: bitLength.simps)

lemma log2floor_2p53:
  "log2floor 9007199254740992 = 53" "log2floor 9007199254740993 = 53"
  by (simp_all add: log2floor_def bitLength_2p53)

lemma floor_2p53: "\<lfloor>(9007199254740993::rat) / 2\<rfloor> = 4503599627370496"
  by (rule floor_unique) simp_all

lemma roundMagnitude_2p53:
  "roundMagnitude 9007199254740992 = 9007199254740992"
  "roundMagnitude 9007199254740993 = 9007199254740992"
  by (simp_all add: roundMagnitude_def log2floor_2p53 pow2_def roundHalfEven_def Let_def floor_2p53)

lemma roundDouble_2p53:
  "roundDouble 9007199254740992 = Fin 9007199254740992"
  "roundDouble 9007199254740993 = Fin 9007199254740992"
  by (simp_all add: roundDouble_def roundMagnitude_2p53 pow2_def)

text \<open>
  The doubles nearest to 0.1, 0.3 and 0.2, their differences, and the sum of the first and
  the last, which lies halfway between two doubles and is rounded to the even one.
\<close>

lemma ceiling_tenths:
  "\<lceil>36028797018963968 / 3602879701896397 :: rat\<rceil> = 10"
  "\<lceil>18014398509481984 / 5404319552844595 :: rat\<rceil> = 4"
  "\<lceil>18014398509481984 / 3602879701896397 :: rat\<rceil> = 5"
  "\<lceil>36028797018963968 / 7205759403792793 :: rat\<rceil> = 6"
  "\<lceil>36028797018963968 / 10808639105689191 :: rat\<rceil> = 4"
  by (rule ceiling_unique, simp, simp)+

lemma bitLength_small:
  "bitLength 3 = 2" "bitLength 4 = 3" "bitLength 5 = 3" "bitLength 9 = 4"
  "bitLength 18014398509481983 = 54" "bitLength 36028797018963967 = 55"
  by (simp_all add: bitLength.simps)

lemma log2floor_tenths:
  "log2floor (3602879701896397 / 36028797018963968) = - 4"
  "log2floor (5404319552844595 / 18014398509481984) = - 2"
  "log2floor (3602879701896397 / 18014398509481984) = - 3"
  "log2floor (7205759403792793 / 36028797018963968) = - 3"
  "log2floor (10808639105689191 / 36028797018963968) = - 2"
  "log2floor (1 / 36028797018963968) = - 55"
  "log2floor (1 / 18014398509481984) = - 54"
  by (simp_all add: log2floor_def ceiling_tenths bitLength_small)

lemma floor_tie: "\<lfloor>10808639105689191 / 2 :: rat\<rfloor> = 5404319552844595"
  by (rule floor_unique) simp_all

lemma roundMagnitude_tenths:
  "roundMagnitude (3602879701896397 / 36028797018963968) = 3602879701896397 / 36028797018963968"
  "roundMagnitude (5404319552844595 / 18014398509481984) = 5404319552844595 / 18014398509481984"
  "roundMagnitude (3602879701896397 / 18014398509481984) = 3602879701896397 / 18014398509481984"
  "roundMagnitude (7205759403792793 / 36028797018963968) = 7205759403792793 / 36028797018963968"
  "roundMagnitude (10808639105689191 / 36028797018963968) = 1351079888211149 / 4503599627370496"
  "roundMagnitude (1 / 36028797018963968) = 1 / 36028797018963968"
  "roundMagnitude (1 / 18014398509481984) = 1 / 18014398509481984"
  by (simp_all add: roundMagnitude_def log2floor_tenths pow2_def roundHalfEven_def Let_def floor_tie)

lemma roundDouble_tenths:
  "roundDouble (3602879701896397 / 36028797018963968) = Fin (3602879701896397 / 36028797018963968)"
  "roundDouble (5404319552844595 / 18014398509481984) = Fin (5404319552844595 / 18014398509481984)"
  "roundDouble (3602879701896397 / 18014398509481984) = Fin (3602879701896397 / 18014398509481984)"
  "roundDouble (- (7205759403792793 / 36028797018963968)) = Fin (- (7205759403792793 / 36028797018963968))"
  "roundDouble (10808639105689191 / 36028797018963968) = Fin (1351079888211149 / 4503599627370496)"
  "roundDouble (1 / 36028797018963968) = Fin (1 / 36028797018963968)"
  "roundDouble (1 / 18014398509481984) = Fin (1 / 18014398509481984)"
  by (simp_all add: roundDouble_def roundMagnitude_tenths pow2_def)

section \<open>Properties of the balance\<close>

lemma jadd_NaN_right: "jadd a NaN = NaN"
  by (cases a) simp_all

lemma jsub_NaN: "jsub a NaN = NaN" "jsub NaN a = NaN"
  by (simp_all add: jsub_def jadd_NaN_right)

lemma jadd_whole:
  "x \<in> \<int> \<Longrightarrow> y \<in> \<int> \<Longrightarrow> \<bar>x + y\<bar> < 2 ^ 53 \<Longrightarrow> jadd (Fin x) (Fin y) = Fin (x + y)"
  by (simp add: roundDouble_whole)

lemma jsub_whole:
  "x \<in> \<int> \<Longrightarrow> y \<in> \<int> \<Longrightarrow> \<bar>x - y\<bar> < 2 ^ 53 \<Longrightarrow> jsub (Fin x) (Fin y) = Fin (x - y)"
  by (simp add: jsub_def roundDouble_whole)

lemma sum_list_abs_nonneg: "0 \<le> sum_list (map (\<lambda>r. \<bar>f r\<bar>) es)" for f :: "'a \<Rightarrow> rat"
  by (induction es) simp_all

lemma sum_list_Ints: "\<forall>r\<in>set es. f r \<in> \<int> \<Longrightarrow> sum_list (map f es) \<in> \<int>" for f :: "'a \<Rightarrow> rat"
  by (induction es) simp_all

lemma sum_list_abs_le: "\<bar>sum_list (map f es)\<bar> \<le> sum_list (map (\<lambda>r. \<bar>f r\<bar>) es)" for f :: "'a \<Rightarrow> rat"
proof (induction es)
  case Nil
  show ?case by simp
next
  case (Cons e es)
  have "\<bar>f e + sum_list (map f es)\<bar> \<le> \<bar>f e\<bar> + \<bar>sum_list (map f es)\<bar>"
    by (rule abs_triangle_ineq)
  with Cons show ?case by simp
qed

lemma sum_list_two_filters:
  "\<forall>r. Q r \<longrightarrow> \<not> R r \<Longrightarrow>
   sum_list (map (\<lambda>r. \<bar>f r\<bar>) (filter Q es)) + sum_list (map (\<lambda>r. \<bar>f r\<bar>) (filter R es))
   \<le> sum_list (map (\<lambda>r. \<bar>f r\<bar>) es)" for f :: "'a \<Rightarrow> rat"
  by (induction es) auto

text \<open>
  The reduction on whole numbers: as long as the magnitudes of the starting value and of
  the amounts add up to less than \<open>2\<^sup>5\<^sup>3\<close>, no step rounds.
\<close>

lemma reduce_whole:
  fixes f :: "'a \<Rightarrow> rat"
  assumes "\<forall>r\<in>set es. f r \<in> \<int>" and "acc \<in> \<int>"
    and "\<bar>acc\<bar> + sum_list (map (\<lambda>r. \<bar>f r\<bar>) es) < 2 ^ 53"
  shows "foldl (\<lambda>a r. if P r then jadd a (Fin (f r)) else jsub a (Fin (f r))) (Fin acc) es
     = Fin (acc + sum_list (map f (filter P es)) - sum_list (map f (filter (\<lambda>r. \<not> P r) es)))"
  using assms
proof (induction es arbitrary: acc)
  case Nil
  show ?case by simp
next
  case (Cons e es)
  have nonneg: "0 \<le> sum_list (map (\<lambda>r. \<bar>f r\<bar>) es)"
    by (rule sum_list_abs_nonneg)
  from Cons.prems have fe: "f e \<in> \<int>" and rest: "\<forall>r\<in>set es. f r \<in> \<int>"
    by simp_all
  from Cons.prems(3) have bound: "\<bar>acc\<bar> + \<bar>f e\<bar> + sum_list (map (\<lambda>r. \<bar>f r\<bar>) es) < 2 ^ 53"
    by simp
  show ?case
  proof (cases "P e")
    case True
    from bound nonneg have small: "\<bar>acc + f e\<bar> < 2 ^ 53"
      by linarith
    from bound have more: "\<bar>acc + f e\<bar> + sum_list (map (\<lambda>r. \<bar>f r\<bar>) es) < 2 ^ 53"
      by linarith
    from Cons.prems(2) fe have whole: "acc + f e \<in> \<int>"
      by simp
    from Cons.IH [OF rest whole more] True jadd_whole [OF Cons.prems(2) fe small]
    show ?thesis
      by (simp add: algebra_simps)
  next
    case False
    from bound nonneg have small: "\<bar>acc - f e\<bar> < 2 ^ 53"
      by linarith
    from bound have more: "\<bar>acc - f e\<bar> + sum_list (map (\<lambda>r. \<bar>f r\<bar>) es) < 2 ^ 53"
      by linarith
    from Cons.prems(2) fe have whole: "acc - f e \<in> \<int>"
      by simp
    from Cons.IH [OF rest whole more] False jsub_whole [OF Cons.prems(2) fe small]
    show ?thesis
      by (simp add: algebra_simps)
  qed
qed

lemma wholeNumber_amount:
  "wholeNumber v \<Longrightarrow> parseFloat v = Fin (numberOf v) \<and> numberOf v \<in> \<int>"
proof (cases v)
  case (JNum n)
  assume "wholeNumber v"
  with JNum show ?thesis
  proof (cases n)
    case (Fin x)
    assume "wholeNumber v"
    with JNum Fin have "x = of_int \<lfloor>x\<rfloor>"
      by (simp add: wholeNumber_def)
    then have "x \<in> \<int>"
      by (metis Ints_of_int)
    with JNum Fin show ?thesis
      by (simp add: numberOf_def)
  qed (simp_all add: wholeNumber_def)
qed (simp_all add: wholeNumber_def)

text \<open>
  On whole amounts of small magnitude the reduction is exact. A record of any category other
  than \<^verbatim>\<open>ingreso\<close> and \<^verbatim>\<open>apoyo\<close> is subtracted.
\<close>

lemma total_whole:
  assumes "\<forall>r\<in>set es. wholeNumber (entry_amount r)" and "magnitudes es < 2 ^ 53"
  shows "total es =
     Fin (sum_list (map (\<lambda>r. numberOf (entry_amount r))
            (filter (\<lambda>r. entry_type r = JStr ''ingreso'' \<or> entry_type r = JStr ''apoyo'') es))
          - sum_list (map (\<lambda>r. numberOf (entry_amount r))
              (filter (\<lambda>r. \<not> (entry_type r = JStr ''ingreso'' \<or> entry_type r = JStr ''apoyo'')) es)))"
proof -
  let ?P = "\<lambda>r. entry_type r = JStr ''ingreso'' \<or> entry_type r = JStr ''apoyo''"
  let ?f = "\<lambda>r. numberOf (entry_amount r)"
  have "total es = foldl (\<lambda>a r. if ?P r then jadd a (Fin (?f r)) else jsub a (Fin (?f r))) (Fin 0) es"
    unfolding total_def Let_def
    using assms(1) by (intro foldl_cong refl) (simp add: wholeNumber_amount)
  moreover have "\<forall>r\<in>set es. ?f r \<in> \<int>"
    using assms(1) by (simp add: wholeNumber_amount)
  moreover have "\<bar>0::rat\<bar> + sum_list (map (\<lambda>r. \<bar>?f r\<bar>) es) < 2 ^ 53"
    using assms(2) by (simp add: magnitudes_def)
  ultimately show ?thesis
    using reduce_whole [of es ?f 0 ?P] by simp
qed

lemma filter_expense:
  "\<forall>r\<in>set es. knownCategory r \<Longrightarrow>
   filter (\<lambda>r. \<not> (entry_type r = JStr ''ingreso'' \<or> entry_type r = JStr ''apoyo'')) es
   = filter (\<lambda>r. entry_type r = JStr ''gasto'') es"
  by (rule filter_cong) (auto simp: knownCategory_def)

lemma jsum_whole:
  fixes f :: "'a \<Rightarrow> rat"
  assumes "\<forall>r\<in>set es. f r \<in> \<int>" and "sum_list (map (\<lambda>r. \<bar>f r\<bar>) es) < 2 ^ 53"
  shows "jsum (map (\<lambda>r. Fin (f r)) es) = Fin (sum_list (map f es))"
proof -
  have "\<bar>0::rat\<bar> + sum_list (map (\<lambda>r. \<bar>f r\<bar>) es) < 2 ^ 53"
    using assms(2) by simp
  from reduce_whole [OF assms(1) _ this, of "\<lambda>r. True"] show ?thesis
    by (simp add: jsum_def foldl_map)
qed

lemma specBalance_whole:
  assumes "\<forall>r\<in>set es. wholeNumber (entry_amount r)" and "magnitudes es < 2 ^ 53"
  shows "specBalance es = Fin (exactBalance es)"
proof -
  let ?P = "\<lambda>r. entry_type r = JStr ''ingreso'' \<or> entry_type r = JStr ''apoyo''"
  let ?Q = "\<lambda>r. entry_type r = JStr ''gasto''"
  let ?f = "\<lambda>r. numberOf (entry_amount r)"
  let ?m = "\<lambda>xs. sum_list (map (\<lambda>r. \<bar>?f r\<bar>) xs)"
  have disjoint: "\<forall>r. ?P r \<longrightarrow> \<not> ?Q r"
    by auto
  have both: "?m (filter ?P es) + ?m (filter ?Q es) \<le> ?m es"
    using disjoint by (rule sum_list_two_filters)
  have nonneg: "0 \<le> ?m (filter ?P es)" "0 \<le> ?m (filter ?Q es)"
    by (rule sum_list_abs_nonneg)+
  from assms(2) have all: "?m es < 2 ^ 53"
    by (simp add: magnitudes_def)
  have whole: "\<forall>r\<in>set (filter ?P es). ?f r \<in> \<int>" "\<forall>r\<in>set (filter ?Q es). ?f r \<in> \<int>"
    using assms(1) by (simp_all add: wholeNumber_amount)
  have amounts: "map amountOf (filter ?P es) = map (\<lambda>r. Fin (?f r)) (filter ?P es)"
      "map amountOf (filter ?Q es) = map (\<lambda>r. Fin (?f r)) (filter ?Q es)"
    using assms(1) by (simp_all add: amountOf_def wholeNumber_amount)
  have plus: "jsum (map amountOf (filter ?P es)) = Fin (sum_list (map ?f (filter ?P es)))"
    unfolding amounts using whole(1) both nonneg all by (intro jsum_whole) linarith+
  have minus: "jsum (map amountOf (filter ?Q es)) = Fin (sum_list (map ?f (filter ?Q es)))"
    unfolding amounts using whole(2) both nonneg all by (intro jsum_whole) linarith+
  have "\<bar>sum_list (map ?f (filter ?P es)) - sum_list (map ?f (filter ?Q es))\<bar>
      \<le> ?m (filter ?P es) + ?m (filter ?Q es)"
    using sum_list_abs_le [of ?f "filter ?P es"] sum_list_abs_le [of ?f "filter ?Q es"]
    by linarith
  with both all
  have small: "\<bar>sum_list (map ?f (filter ?P es)) - sum_list (map ?f (filter ?Q es))\<bar> < 2 ^ 53"
    by linarith
  show ?thesis
    unfolding specBalance_def plus minus exactBalance_def
    by (rule jsub_whole [OF sum_list_Ints [OF whole(1)] sum_list_Ints [OF whole(2)] small])
qed

text \<open>
  The reduction when no step rounds: the balance of every initial part of the list is its
  exact balance.
\<close>

lemma finiteNumber_amount: "finiteNumber v \<Longrightarrow> parseFloat v = Fin (numberOf v)"
proof (cases v)
  case (JNum n)
  assume "finiteNumber v"
  with JNum show ?thesis
    by (cases n) (simp_all add: finiteNumber_def numberOf_def)
qed (simp_all add: finiteNumber_def)

lemma total_snoc:
  "total (es @ [r]) =
     (if entry_type r = JStr ''ingreso'' \<or> entry_type r = JStr ''apoyo''
      then jadd (total es) (parseFloat (entry_amount r))
      else jsub (total es) (parseFloat (entry_amount r)))"
  by (simp add: total_def Let_def)

lemma exactBalance_snoc:
  "knownCategory r \<Longrightarrow>
   exactBalance (es @ [r]) =
     (if entry_type r = JStr ''ingreso'' \<or> entry_type r = JStr ''apoyo''
      then exactBalance es + numberOf (entry_amount r)
      else exactBalance es - numberOf (entry_amount r))"
  by (auto simp: exactBalance_def knownCategory_def)

lemma exactSteps_iff:
  "exactSteps es \<longleftrightarrow> (\<forall>k\<le>length es. isDouble (exactBalance (take k es)))"
  by (auto simp: exactSteps_def list_all_iff)

lemma total_exactSteps:
  assumes "\<forall>r\<in>set es. knownCategory r \<and> finiteNumber (entry_amount r)" and "exactSteps es"
  shows "total es = Fin (exactBalance es)"
  using assms
proof (induction es rule: rev_induct)
  case Nil
  show ?case by (simp add: total_def exactBalance_def)
next
  case (snoc r es)
  from snoc.prems(2)
  have steps: "\<forall>k\<le>Suc (length es). isDouble (exactBalance (take k (es @ [r])))"
    by (simp add: exactSteps_iff)
  have "exactSteps es"
    unfolding exactSteps_iff
  proof (intro allI impI)
    fix k
    assume k: "k \<le> length es"
    then have "k \<le> Suc (length es)"
      by simp
    with steps have "isDouble (exactBalance (take k (es @ [r])))"
      by blast
    with k show "isDouble (exactBalance (take k es))"
      by simp
  qed
  with snoc have before: "total es = Fin (exactBalance es)"
    by simp
  from steps have "isDouble (exactBalance (take (Suc (length es)) (es @ [r])))"
    by blast
  then have last: "roundDouble (exactBalance (es @ [r])) = Fin (exactBalance (es @ [r]))"
    by (simp add: isDouble_def)
  from snoc.prems(1) have known: "knownCategory r" and finite: "finiteNumber (entry_amount r)"
    by simp_all
  show ?case
  proof (cases "entry_type r = JStr ''ingreso'' \<or> entry_type r = JStr ''apoyo''")
    case True
    with known have "exactBalance (es @ [r]) = exactBalance es + numberOf (entry_amount r)"
      by (simp add: exactBalance_snoc)
    with last True show ?thesis
      by (simp add: total_snoc before finiteNumber_amount [OF finite])
  next
    case False
    with known have "exactBalance (es @ [r]) = exactBalance es - numberOf (entry_amount r)"
      by (simp add: exactBalance_snoc)
    with last False show ?thesis
      by (simp add: total_snoc before finiteNumber_amount [OF finite] jsub_def)
  qed
qed

text \<open>
  C1, as the code has it. The balance stored by \<^verbatim>\<open>calculateBalance\<close> is the result of
  adding and subtracting the amounts in the order of the list, every step rounded to the
  nearest double. On a list of records whose categories are the three of the data model
  and whose amounts are finite numbers, it is the sum of the amounts of the income and
  support records minus the sum of the amounts of the expense records whenever no step
  rounds. That is so for amounts that are whole numbers with magnitudes adding up to less
  than \<open>2\<^sup>5\<^sup>3\<close>, and then the difference of the two sums, computed with the numbers of the
  program, is the same number. On the empty list the balance is 0.
\<close>

theorem calculateBalance_signed_sum:
  "((\<forall>r\<in>set es. knownCategory r \<and> finiteNumber (entry_amount r)) \<and> exactSteps es \<longrightarrow>
      balance (calculateBalance es s) = Fin (exactBalance es)) \<and>
   ((\<forall>r\<in>set es. knownCategory r \<and> wholeNumber (entry_amount r)) \<and> magnitudes es < 2 ^ 53 \<longrightarrow>
      balance (calculateBalance es s) = Fin (exactBalance es) \<and>
      specBalance es = Fin (exactBalance es)) \<and>
   balance (calculateBalance [] s) = Fin 0"
proof (intro conjI impI)
  assume ok: "(\<forall>r\<in>set es. knownCategory r \<and> finiteNumber (entry_amount r)) \<and> exactSteps es"
  then have "total es = Fin (exactBalance es)"
    by (blast intro: total_exactSteps)
  then show "balance (calculateBalance es s) = Fin (exactBalance es)"
    by (simp add: calculateBalance_def)
next
  assume ok: "(\<forall>r\<in>set es. knownCategory r \<and> wholeNumber (entry_amount r)) \<and> magnitudes es < 2 ^ 53"
  then have known: "\<forall>r\<in>set es. knownCategory r"
    and whole: "\<forall>r\<in>set es. wholeNumber (entry_amount r)" and small: "magnitudes es < 2 ^ 53"
    by simp_all
  have "total es = Fin (exactBalance es)"
    unfolding exactBalance_def total_whole [OF whole small] filter_expense [OF known] ..
  then show "balance (calculateBalance es s) = Fin (exactBalance es)"
    by (simp add: calculateBalance_def)
  show "specBalance es = Fin (exactBalance es)"
    by (rule specBalance_whole [OF whole small])
next
  show "balance (calculateBalance [] s) = Fin 0"
    by (simp add: calculateBalance_def total_def)
qed

theorem calculateBalance_signed_sum_witness:
  "knownCategory income01 \<and> knownCategory expense03 \<and> knownCategory income02 \<and>
   finiteNumber (entry_amount income01) \<and> finiteNumber (entry_amount expense03) \<and>
   finiteNumber (entry_amount income02) \<and>
   exactSteps [income01, expense03, income02] \<and>
   exactBalance [income01, expense03, income02] = 1 / 36028797018963968 \<and>
   balance (calculateBalance [income01, expense03, income02] (initialApp ''2024-01-03''))
     = Fin (1 / 36028797018963968) \<and>
   knownCategory income100 \<and> knownCategory expense40 \<and> knownCategory support20 \<and>
   wholeNumber (entry_amount income100) \<and> wholeNumber (entry_amount expense40) \<and>
   wholeNumber (entry_amount support20) \<and>
   magnitudes [income100, expense40, support20] = 160 \<and>
   exactBalance [income100, expense40, support20] = 80 \<and>
   balance (calculateBalance [income100, expense40, support20] (initialApp ''2024-01-03''))
     = Fin 80 \<and>
   specBalance [income100, expense40, support20] = Fin 80"
proof -
  have known: "knownCategory income100 \<and> knownCategory expense40 \<and> knownCategory support20"
    by (simp add: knownCategory_def income100_def expense40_def support20_def)
  have whole: "wholeNumber (entry_amount income100) \<and> wholeNumber (entry_amount expense40) \<and>
      wholeNumber (entry_amount support20)"
    by (simp add: wholeNumber_def income100_def expense40_def support20_def)
  have mag: "magnitudes [income100, expense40, support20] = 160"
    by (simp add: magnitudes_def numberOf_def income100_def expense40_def support20_def)
  have exact: "exactBalance [income100, expense40, support20] = 80"
    by (simp add: exactBalance_def numberOf_def income100_def expense40_def support20_def)
  have known': "knownCategory income01 \<and> knownCategory expense03 \<and> knownCategory income02"
    by (simp add: knownCategory_def income01_def expense03_def income02_def)
  have finite: "finiteNumber (entry_amount income01) \<and> finiteNumber (entry_amount expense03) \<and>
      finiteNumber (entry_amount income02)"
    by (simp add: finiteNumber_def income01_def expense03_def income02_def)
  have steps: "exactSteps [income01, expense03, income02]"
    by (simp add: exactSteps_def isDouble_def exactBalance_def numberOf_def
          income01_def expense03_def income02_def roundDouble_tenths roundDouble_0)
  have exact': "exactBalance [income01, expense03, income02] = 1 / 36028797018963968"
    by (simp add: exactBalance_def numberOf_def income01_def expense03_def income02_def)
  from known' finite steps
    calculateBalance_signed_sum [of "[income01, expense03, income02]" "initialApp ''2024-01-03''"]
  have tenths: "balance (calculateBalance [income01, expense03, income02] (initialApp ''2024-01-03''))
      = Fin (exactBalance [income01, expense03, income02])"
    by simp
  from known whole mag
    calculateBalance_signed_sum [of "[income100, expense40, support20]" "initialApp ''2024-01-03''"]
  have "balance (calculateBalance [income100, expense40, support20] (initialApp ''2024-01-03''))
      = Fin (exactBalance [income100, expense40, support20]) \<and>
    specBalance [income100, expense40, support20] = Fin (exactBalance [income100, expense40, support20])"
    by simp
  with known whole mag exact known' finite steps exact' tenths show ?thesis
    by simp
qed

text \<open>
  The claim as the specification words it fails where an addition rounds. With an income
  of \<open>2\<^sup>5\<^sup>3\<close>, an expense of \<open>2\<^sup>5\<^sup>3\<close> and an income of 1, in this order, the balance is 1
  while the sum of the incomes minus the sum of the expenses, computed with the numbers of
  the program, is 0; with the income of 1 in second place the balance is 0 while the exact
  difference is 1. The balance depends on the order of the records.
\<close>

theorem calculateBalance_rounding_counterexample:
  "balance (calculateBalance [incomeBig, expenseBig, incomeOne] (initialApp ''2024-01-03'')) = Fin 1 \<and>
   specBalance [incomeBig, expenseBig, incomeOne] = Fin 0 \<and>
   balance (calculateBalance [incomeBig, incomeOne, expenseBig] (initialApp ''2024-01-03'')) = Fin 0 \<and>
   exactBalance [incomeBig, incomeOne, expenseBig] = 1"
  by (simp add: calculateBalance_def total_def specBalance_def exactBalance_def jsum_def
        amountOf_def numberOf_def jsub_def incomeBig_def expenseBig_def incomeOne_def
        roundDouble_0 roundDouble_2p53 roundDouble_whole)

text \<open>
  Amounts of everyday size show the same: with an income of 0.1, an expense of 0.3 and an
  income of 0.2 the balance is \<open>2\<^sup>-\<^sup>5\<^sup>5\<close>, the exact balance of the three doubles, while the sum
  of the incomes minus the sum of the expenses, computed with the numbers of the program,
  is \<open>2\<^sup>-\<^sup>5\<^sup>4\<close>: the sum of the two incomes is rounded.
\<close>

lemma calculateBalance_tenths:
  "balance (calculateBalance [income01, expense03, income02] (initialApp ''2024-01-03''))
     = Fin (1 / 36028797018963968) \<and>
   specBalance [income01, expense03, income02] = Fin (1 / 18014398509481984)"
  by (simp add: calculateBalance_def total_def specBalance_def jsum_def amountOf_def jsub_def
        income01_def expense03_def income02_def roundDouble_tenths)

section \<open>Amounts that are not numbers\<close>

lemma total_NaN:
  assumes "r \<in> set es" and "parseFloat (entry_amount r) = NaN"
  shows "total es = NaN"
proof -
  let ?g = "\<lambda>acc entry.
        if entry_type entry = JStr ''ingreso'' \<or> entry_type entry = JStr ''apoyo''
        then jadd acc (parseFloat (entry_amount entry))
        else jsub acc (parseFloat (entry_amount entry))"
  have stay: "foldl ?g NaN xs = NaN" for xs
    by (induction xs) (simp_all add: jsub_NaN)
  have "foldl ?g acc es = NaN" for acc
    using assms(1)
  proof (induction es arbitrary: acc)
    case Nil
    then show ?case by simp
  next
    case (Cons e es)
    show ?case
    proof (cases "e = r")
      case True
      with assms(2) have "?g acc e = NaN"
        by (simp add: jadd_NaN_right jsub_NaN)
      then show ?thesis
        by (simp add: stay)
    next
      case False
      with Cons.prems have "r \<in> set es"
        by simp
      from Cons.IH [OF this] show ?thesis
        by simp
    qed
  qed
  then show ?thesis
    by (simp add: total_def Let_def)
qed

text \<open>
  C2, as the code has it. \<^verbatim>\<open>calculateBalance\<close> never throws, but a record whose amount
  does not parse to a number is not skipped: \<^verbatim>\<open>parseFloat\<close> gives NaN, and the balance
  of every list that contains such a record is NaN.
\<close>

theorem calculateBalance_invalid_amount:
  "(\<exists>r\<in>set es. parseFloat (entry_amount r) = NaN) \<longrightarrow>
     balance (calculateBalance es s) = NaN"
  by (auto simp: calculateBalance_def total_NaN)

lemma parseFloatS_abc: "parseFloatS ''abc'' = NaN"
  by (simp add: parseFloatS_def trimStart.simps wsLen_def ws1_def ws2_def ws3_def isDigit_def)

theorem calculateBalance_invalid_amount_witness:
  "parseFloat (entry_amount abcAmount) = NaN \<and>
   balance (calculateBalance [income100, abcAmount] (initialApp ''2024-01-03'')) = NaN"
proof -
  have nan: "parseFloat (entry_amount abcAmount) = NaN"
    by (simp add: abcAmount_def parseFloatS_abc)
  then have "\<exists>r\<in>set [income100, abcAmount]. parseFloat (entry_amount r) = NaN"
    by simp
  with calculateBalance_invalid_amount [of "[income100, abcAmount]" "initialApp ''2024-01-03''"]
  have "balance (calculateBalance [income100, abcAmount] (initialApp ''2024-01-03'')) = NaN"
    by blast
  with nan show ?thesis by simp
qed

text \<open>
  The claim as the specification words it fails: with an income of 100 and a record whose
  amount is the text \<^verbatim>\<open>abc\<close>, the balance is NaN, not the 100 of the remaining record.
\<close>

theorem calculateBalance_skip_counterexample:
  "parseFloat (entry_amount abcAmount) = NaN \<and>
   balance (calculateBalance [income100, abcAmount] (initialApp ''2024-01-03'')) = NaN \<and>
   balance (calculateBalance [income100] (initialApp ''2024-01-03'')) = Fin 100"
  by (simp add: calculateBalance_def total_def abcAmount_def income100_def parseFloatS_abc
        roundDouble_whole)

section \<open>The form: submission\<close>

lemma parseFloatS_empty: "parseFloatS [] = NaN"
  by (simp add: parseFloatS_def trimStart.simps wsLen_def ws1_def ws2_def ws3_def)

lemma parsesPositive_nonempty: "parsesPositive a \<Longrightarrow> a \<noteq> []"
  by (auto simp: parsesPositive_def parseFloatS_empty)

lemma parsesPositive_not_jle: "parsesPositive a \<Longrightarrow> \<not> jle (parseFloatS a) (Fin 0)"
  by (cases "parseFloatS a") (auto simp: parsesPositive_def)

text \<open>
  C3, as the code has it. \<^verbatim>\<open>addEntry\<close> rejects, with the validation message and without
  calling the store, when the description, the name or the date is empty, or when the
  amount is empty or parses to a number that is at most 0. When the three texts are not
  empty, the amount parses to a number above 0 and the session is ready, it calls
  \<^verbatim>\<open>addDoc\<close> exactly once, with a record of the category of the form. When the fields are
  valid and the session is not ready, it reports that and does not call the store.
\<close>

theorem addEntry_validation:
  "(specificDescription s = [] \<or> specificEntityName s = [] \<or> entryDate s = [] \<or>
      amount s = [] \<or> jle (parseFloatS (amount s)) (Fin 0)
      \<longrightarrow> addEntry e s = s\<lparr>message := msgInvalid\<rparr>) \<and>
   (specificDescription s \<noteq> [] \<and> specificEntityName s \<noteq> [] \<and> entryDate s \<noteq> [] \<and>
      parsesPositive (amount s) \<and> sessionReady s
      \<longrightarrow> created (addEntry e s) = created s @ [newEntryData e s] \<and>
          entry_type (newEntryData e s) = JStr (type s)) \<and>
   (specificDescription s \<noteq> [] \<and> specificEntityName s \<noteq> [] \<and> entryDate s \<noteq> [] \<and>
      parsesPositive (amount s) \<and> \<not> sessionReady s
      \<longrightarrow> addEntry e s = s\<lparr>message := msgNotReady\<rparr>)"
proof (intro conjI impI)
  assume "specificDescription s = [] \<or> specificEntityName s = [] \<or> entryDate s = [] \<or>
      amount s = [] \<or> jle (parseFloatS (amount s)) (Fin 0)"
  then show "addEntry e s = s\<lparr>message := msgInvalid\<rparr>"
    by (auto simp: addEntry_def)
next
  assume ok: "specificDescription s \<noteq> [] \<and> specificEntityName s \<noteq> [] \<and> entryDate s \<noteq> [] \<and>
      parsesPositive (amount s) \<and> sessionReady s"
  then have "amount s \<noteq> []" and "\<not> jle (parseFloatS (amount s)) (Fin 0)"
    by (auto dest: parsesPositive_nonempty parsesPositive_not_jle)
  with ok show "created (addEntry e s) = created s @ [newEntryData e s]"
    by (auto simp: addEntry_def sessionReady_def Let_def split: option.splits)
next
  show "entry_type (newEntryData e s) = JStr (type s)"
    by (simp add: newEntryData_def)
next
  assume ok: "specificDescription s \<noteq> [] \<and> specificEntityName s \<noteq> [] \<and> entryDate s \<noteq> [] \<and>
      parsesPositive (amount s) \<and> \<not> sessionReady s"
  then have "amount s \<noteq> []" and "\<not> jle (parseFloatS (amount s)) (Fin 0)"
    by (auto dest: parsesPositive_nonempty parsesPositive_not_jle)
  with ok show "addEntry e s = s\<lparr>message := msgNotReady\<rparr>"
    by (auto simp: addEntry_def sessionReady_def split: option.splits)
qed

lemma parseFloatS_100: "parseFloatS ''100'' = Fin 100"
  by (simp add: parseFloatS_def trimStart.simps wsLen_def ws1_def ws2_def ws3_def isDigit_def
        digitsVal_def digitVal_def parseExponent_def scale10_def Let_def roundDouble_whole)

lemma parseFloatS_0: "parseFloatS ''0'' = Fin 0"
  by (simp add: parseFloatS_def trimStart.simps wsLen_def ws1_def ws2_def ws3_def isDigit_def
        digitsVal_def digitVal_def parseExponent_def scale10_def Let_def roundDouble_whole)

theorem addEntry_validation_witness:
  "jle (parseFloatS (amount (readyForm\<lparr>amount := ''0''\<rparr>))) (Fin 0) \<and>
   created (addEntry sampleEnv (readyForm\<lparr>amount := ''0''\<rparr>)) = [] \<and>
   message (addEntry sampleEnv (readyForm\<lparr>amount := ''0''\<rparr>)) = msgInvalid \<and>
   parsesPositive (amount readyForm) \<and> sessionReady readyForm \<and>
   created (addEntry sampleEnv readyForm) = [newEntryData sampleEnv readyForm] \<and>
   entry_type (newEntryData sampleEnv readyForm) = JStr ''ingreso'' \<and>
   parsesPositive (amount filledForm) \<and> \<not> sessionReady filledForm \<and>
   created (addEntry sampleEnv filledForm) = [] \<and>
   message (addEntry sampleEnv filledForm) = msgNotReady"
proof -
  have zero: "jle (parseFloatS (amount (readyForm\<lparr>amount := ''0''\<rparr>))) (Fin 0)"
    by (simp add: parseFloatS_0)
  have fields: "specificDescription readyForm \<noteq> [] \<and> specificEntityName readyForm \<noteq> [] \<and>
      entryDate readyForm \<noteq> [] \<and> specificDescription filledForm \<noteq> [] \<and>
      specificEntityName filledForm \<noteq> [] \<and> entryDate filledForm \<noteq> []"
    by (simp add: readyForm_def filledForm_def initialApp_def)
  have pos: "parsesPositive (amount readyForm) \<and> parsesPositive (amount filledForm)"
    by (simp add: readyForm_def filledForm_def parsesPositive_def parseFloatS_100)
  have ready: "sessionReady readyForm \<and> \<not> sessionReady filledForm"
    by (simp add: sessionReady_def readyForm_def filledForm_def initialApp_def)
  have init: "created readyForm = [] \<and> created filledForm = [] \<and> type readyForm = ''ingreso''"
    by (simp add: readyForm_def filledForm_def initialApp_def)
  from zero addEntry_validation [of "readyForm\<lparr>amount := ''0''\<rparr>" sampleEnv]
  have r1: "addEntry sampleEnv (readyForm\<lparr>amount := ''0''\<rparr>)
      = readyForm\<lparr>amount := ''0'', message := msgInvalid\<rparr>"
    by simp
  from fields pos ready addEntry_validation [of readyForm sampleEnv]
  have r2: "created (addEntry sampleEnv readyForm) = created readyForm @ [newEntryData sampleEnv readyForm]
      \<and> entry_type (newEntryData sampleEnv readyForm) = JStr (type readyForm)"
    by blast
  from fields pos ready addEntry_validation [of filledForm sampleEnv]
  have r3: "addEntry sampleEnv filledForm = filledForm\<lparr>message := msgNotReady\<rparr>"
    by blast
  from zero pos ready init r1 r2 r3 show ?thesis
    by simp
qed

text \<open>
  The claim as the specification words it fails on a form whose four fields are valid
  while the session is not ready: no document is passed to the store.
\<close>

theorem addEntry_not_ready_counterexample:
  "specificDescription filledForm \<noteq> [] \<and> specificEntityName filledForm \<noteq> [] \<and>
   entryDate filledForm \<noteq> [] \<and> parsesPositive (amount filledForm) \<and>
   created (addEntry sampleEnv filledForm) = created filledForm"
  by (simp add: filledForm_def initialApp_def parsesPositive_def parseFloatS_100
        addEntry_def)

text \<open>
  An amount that is not empty and does not start with a number is not rejected either:
  \<^verbatim>\<open>parseFloat\<close> gives NaN, the test \<^verbatim>\<open>NaN <= 0\<close> is false, and a record with the amount
  NaN is passed to the store.
\<close>

lemma addEntry_NaN_amount:
  "\<not> parsesPositive ''abc'' \<and>
   created (addEntry sampleEnv (readyForm\<lparr>amount := ''abc''\<rparr>))
     = [newEntryData sampleEnv (readyForm\<lparr>amount := ''abc''\<rparr>)] \<and>
   entry_amount (newEntryData sampleEnv (readyForm\<lparr>amount := ''abc''\<rparr>)) = JNum NaN"
  by (simp add: readyForm_def filledForm_def initialApp_def parsesPositive_def
        parseFloatS_abc addEntry_def newEntryData_def Let_def)

section \<open>Export of an empty record set\<close>

text \<open>
  C7. When there are no records, \<^verbatim>\<open>exportToCSV\<close> produces no file, leaves the records
  and the balance as they are, and reports that there is nothing to export.
\<close>

theorem exportToCSV_empty:
  "entries s = [] \<longrightarrow>
     (\<exists>s'. exportToCSV e s = Inr s' \<and> downloads s' = downloads s \<and>
           entries s' = entries s \<and> balance s' = balance s \<and>
           message s' = ''No hay registros para exportar.'')"
  by (simp add: exportToCSV_def msgNothing_def)

theorem exportToCSV_empty_witness:
  "entries (initialApp ''2024-01-03'') = [] \<and>
   exportToCSV sampleEnv (initialApp ''2024-01-03'')
     = Inr ((initialApp ''2024-01-03'')\<lparr>message := ''No hay registros para exportar.''\<rparr>)"
proof -
  have none: "entries (initialApp ''2024-01-03'') = []"
    by (simp add: initialApp_def)
  with exportToCSV_empty [of "initialApp ''2024-01-03''" sampleEnv]
  obtain s' where "exportToCSV sampleEnv (initialApp ''2024-01-03'') = Inr s'"
    by blast
  with none show ?thesis
    by (simp add: exportToCSV_def msgNothing_def)
qed

section \<open>Two decimal places\<close>

lemma isDigit_digitChar: "d < 10 \<Longrightarrow> isDigit (digitChar d)"
proof -
  assume "d < 10"
  then have "d \<in> {0, 1, 2, 3, 4, 5, 6, 7, 8, 9}"
    by auto
  then show ?thesis
    by (auto simp: isDigit_def digitChar_def)
qed

lemma natToDigits_digits: "list_all isDigit (natToDigits n)"
proof (induction n rule: natToDigits.induct)
  case (1 n)
  show ?case
  proof (cases "n < 10")
    case True
    then show ?thesis
      by (subst natToDigits.simps) (simp add: isDigit_digitChar)
  next
    case False
    with "1.IH" show ?thesis
      by (subst natToDigits.simps) (simp add: isDigit_digitChar)
  qed
qed

lemma natToDigits_nonempty: "natToDigits n \<noteq> []"
  by (subst natToDigits.simps) simp

text \<open>
  Below \<open>10\<^sup>2\<^sup>1\<close> in magnitude, \<^verbatim>\<open>toFixed(2)\<close> prints the sign, the digits of the integer
  part, a point and two digits.
\<close>

lemma toFixed2_shape:
  assumes "\<bar>x\<bar> < 10 ^ 21"
  shows "\<exists>ip a b. toFixed 2 (Fin x) = (if x < 0 then ''-'' else '''') @ ip @ [CHR ''.'', a, b] \<and>
           ip \<noteq> [] \<and> list_all isDigit ip \<and> isDigit a \<and> isDigit b"
proof -
  define m where "m = natToDigits (nat \<lfloor>\<bar>x\<bar> * 10\<^sup>2 + 1 / 2\<rfloor>)"
  define m' where "m' = replicate (3 - length m) (CHR ''0'') @ m"
  define k where "k = length m'"
  have "isDigit (CHR ''0'')"
    by (simp add: isDigit_def)
  then have "list_all isDigit (replicate (3 - length m) (CHR ''0''))"
    by (simp add: list_all_iff)
  then have digits: "list_all isDigit m'"
    unfolding m'_def m_def by (simp only: list_all_append natToDigits_digits simp_thms)
  have k3: "3 \<le> k"
    by (simp add: k_def m'_def)
  have fixed: "toFixed 2 (Fin x) = (if x < 0 then ''-'' else '''') @ take (k - 2) m' @ ''.'' @ drop (k - 2) m'"
    using assms by (simp add: toFixed.simps Let_def m_def m'_def k_def numeral_3_eq_3)
  have "length (drop (k - 2) m') = 2"
    using k3 by (simp add: k_def)
  then obtain a b where ab: "drop (k - 2) m' = [a, b]"
    by (cases "drop (k - 2) m'"; cases "tl (drop (k - 2) m')") auto
  have "set (drop (k - 2) m') \<subseteq> set m'" and "set (take (k - 2) m') \<subseteq> set m'"
    by (rule set_drop_subset, rule set_take_subset)
  with digits ab have "isDigit a" "isDigit b" "list_all isDigit (take (k - 2) m')"
    by (auto simp: list_all_iff)
  moreover have "take (k - 2) m' \<noteq> []"
    using k3 by (auto simp: k_def)
  ultimately show ?thesis
    using fixed ab by auto
qed

lemma toFixed2_twoDecimals:
  assumes "\<bar>x\<bar> < 10 ^ 21"
  shows "twoDecimals (toFixed 2 (Fin x))"
proof -
  from toFixed2_shape [OF assms] obtain ip a b where
    t: "toFixed 2 (Fin x) = (if x < 0 then ''-'' else '''') @ ip @ [CHR ''.'', a, b]"
    and ip: "ip \<noteq> []" "list_all isDigit ip" and ab: "isDigit a" "isDigit b"
    by blast
  from ip obtain c cs where c: "ip = c # cs" "isDigit c"
    by (cases ip) auto
  then have "c \<noteq> CHR ''-''"
    by (auto simp: isDigit_def)
  with t c ip ab show ?thesis
    by (cases "x < 0") (simp_all add: twoDecimals_def Let_def)
qed

section \<open>The form: category change\<close>

text \<open>
  Every change of the category resets the fields: the description becomes \<^verbatim>\<open>Apoyo\<close>
  when the new category is \<^verbatim>\<open>apoyo\<close> and empty otherwise, the name and the amount become
  empty, the payment method becomes \<^verbatim>\<open>Efectivo\<close>, and the entry date becomes the date
  part of the ISO time stamp of the clock.
\<close>

lemma setType_fields:
  "t \<noteq> type s \<Longrightarrow>
     type (setType e t s) = t \<and>
     specificDescription (setType e t s) = (if t = ''apoyo'' then ''Apoyo'' else '''') \<and>
     specificEntityName (setType e t s) = '''' \<and>
     amount (setType e t s) = '''' \<and>
     entryDate (setType e t s) = today e \<and>
     paymentMethod (setType e t s) = ''Efectivo''"
  by (simp add: setType_def typeEffect_def)

lemma isDigit_not_T: "isDigit c \<Longrightarrow> c \<noteq> CHR ''T''"
  by (auto simp: isDigit_def)

lemma pad_not_T: "c \<in> set (pad w n) \<Longrightarrow> c \<noteq> CHR ''T''"
proof -
  assume "c \<in> set (pad w n)"
  then have "c = CHR ''0'' \<or> c \<in> set (natToDigits (nat n))"
    by (auto simp: pad_def Let_def)
  moreover have "\<forall>d\<in>set (natToDigits (nat n)). isDigit d"
    using natToDigits_digits [of "nat n"] by (simp add: list_all_iff)
  ultimately show ?thesis
    by (auto dest: isDigit_not_T)
qed

lemma isoDate_not_T: "c \<in> set (isoDate ms) \<Longrightarrow> c \<noteq> CHR ''T''"
  by (auto simp: isoDate_def yearText_def split: prod.splits if_splits dest: pad_not_T)

text \<open>The entry date is the date of the clock in UTC.\<close>

lemma today_utc: "today e = isoDate (nowMillis e)"
proof -
  have "takeWhile (\<lambda>c. c \<noteq> CHR ''T'') (isoDate (nowMillis e) @ ''T'' @ isoTime (nowMillis e) @ ''Z'')
      = isoDate (nowMillis e) @ takeWhile (\<lambda>c. c \<noteq> CHR ''T'') (''T'' @ isoTime (nowMillis e) @ ''Z'')"
    by (rule takeWhile_append2) (rule isoDate_not_T)
  then show ?thesis
    by (simp add: today_def toISOString_def)
qed

text \<open>It is the calendar date of the user where the local time is UTC.\<close>

lemma today_local: "tzOffsetMinutes e = 0 \<Longrightarrow> today e = localDate e"
  by (simp add: today_utc localDate_def)

lemma civil_samples: "civil 19725 = (2024, 1, 3)" "civil 19724 = (2024, 1, 2)"
  by (simp_all only: civil_def Let_def) simp_all

lemma pad_samples:
  "pad 4 2024 = ''2024''" "pad 2 1 = ''01''" "pad 2 2 = ''02''" "pad 2 3 = ''03''"
  by (simp_all add: pad_def Let_def natToDigits.simps digitChar_def)

lemma isoDate_samples:
  "isoDate 1704247200000 = ''2024-01-03''" "isoDate 1704225600000 = ''2024-01-02''"
  by (simp_all add: isoDate_def civil_samples yearText_def pad_samples)

text \<open>
  C4. The claim holds for the description, the name, the amount and the payment method,
  and fails for the entry date. At 20:00 of 2 January 2024 in Mexico City a change of the
  category to \<^verbatim>\<open>apoyo\<close> sets the entry date to \<^verbatim>\<open>2024-01-03\<close>, the date in UTC, while the
  current calendar date of the user is 2 January. The comments of the code (``Default to
  today's date'', ``Reset to today'') name the calendar date.
\<close>

theorem setType_entryDate_utc:
  "type (readyForm\<lparr>paymentMethod := ''Transferencia''\<rparr>) = ''ingreso'' \<and>
   specificDescription (setType eveningEnv ''apoyo'' (readyForm\<lparr>paymentMethod := ''Transferencia''\<rparr>))
     = ''Apoyo'' \<and>
   specificEntityName (setType eveningEnv ''apoyo'' (readyForm\<lparr>paymentMethod := ''Transferencia''\<rparr>))
     = '''' \<and>
   amount (setType eveningEnv ''apoyo'' (readyForm\<lparr>paymentMethod := ''Transferencia''\<rparr>)) = '''' \<and>
   paymentMethod (setType eveningEnv ''apoyo'' (readyForm\<lparr>paymentMethod := ''Transferencia''\<rparr>))
     = ''Efectivo'' \<and>
   entryDate (setType eveningEnv ''apoyo'' (readyForm\<lparr>paymentMethod := ''Transferencia''\<rparr>))
     = ''2024-01-03'' \<and>
   localDate eveningEnv = ''2024-01-02''"
proof -
  have changed: "type (readyForm\<lparr>paymentMethod := ''Transferencia''\<rparr>) = ''ingreso''"
    by (simp add: readyForm_def filledForm_def initialApp_def)
  have utc: "today eveningEnv = ''2024-01-03''"
    by (simp add: today_utc eveningEnv_def isoDate_samples)
  have local: "localDate eveningEnv = ''2024-01-02''"
    by (simp add: localDate_def eveningEnv_def isoDate_samples)
  from changed utc local show ?thesis
    by (simp add: setType_def typeEffect_def)
qed

section \<open>Properties of the receipt\<close>

text \<open>The document and the file name produced for a record with a text as description and a number as amount.\<close>

lemma generateReceipt_content:
  "entry_description r = JStr d \<Longrightarrow> entry_amount r = JNum a \<Longrightarrow>
   generateReceipt e r s =
     Inr (s\<lparr>downloads := downloads s @
            [\<lparr>filename = ''recibo_apoyo_'' @ replaceSpaces d @ ''_'' @
                          jsToString (entry_entryDate r) @ ''.html'',
              mimeType = ''text/html'',
              content =
                receiptPart0 @ d @
                receiptPart1 @ longDate e (entry_entryDate r) @
                receiptPart2 @ d @
                receiptPart3 @ jsToString (entry_entityName r) @
                receiptPart4 @ jsToString (entry_paymentMethod r) @
                (receiptPart5 @ toFixed 2 a @ receiptPart6)\<rparr>],
          message := msgReceipt\<rparr>)"
  by (simp add: generateReceipt_def receiptContent_def)

lemma receiptPart5_Monto: "\<exists>pre. receiptPart5 = pre @ ''Monto: $''"
  by (simp add: receiptPart5_def)

lemma receiptPart6_MXN: "\<exists>post. receiptPart6 = '' MXN'' @ post"
  by (simp add: receiptPart6_def)

lemma sublist_amount:
  "sublist (''Monto: $'' @ t @ '' MXN'') (pre @ receiptPart5 @ t @ receiptPart6)"
proof -
  obtain p where p: "receiptPart5 = p @ ''Monto: $''"
    using receiptPart5_Monto by blast
  obtain q where q: "receiptPart6 = '' MXN'' @ q"
    using receiptPart6_MXN by blast
  have "pre @ receiptPart5 @ t @ receiptPart6 = (pre @ p) @ (''Monto: $'' @ t @ '' MXN'') @ q"
    by (simp add: p q)
  then show ?thesis
    unfolding sublist_def by blast
qed

text \<open>
  The button of the support form passes a text as description and a number as amount, so
  a receipt asked for from the form is always produced.
\<close>

lemma clickGenerarRecibo_total: "\<exists>s'. clickGenerarRecibo e s = Inr s'"
  by (simp add: clickGenerarRecibo_def generateReceipt_def newEntryData_def)

text \<open>
  C10. The receipt of a record whose description, name and payment method are texts
  contains the three texts as they are, each between the fixed parts of the template, with
  no character replaced; markup in them reaches the document unchanged.
\<close>

theorem generateReceipt_verbatim:
  "\<exists>f c. generateReceipt e
            (r\<lparr>entry_description := JStr d, entry_entityName := JStr n,
               entry_paymentMethod := JStr p, entry_amount := JNum a\<rparr>) s
          = Inr (s\<lparr>downloads := downloads s @
                   [\<lparr>filename = f, mimeType = ''text/html'', content = c\<rparr>],
                 message := msgReceipt\<rparr>) \<and>
         c = receiptPart0 @ d @ receiptPart1 @ longDate e (entry_entryDate r) @
             receiptPart2 @ d @ receiptPart3 @ n @ receiptPart4 @ p @
             receiptPart5 @ toFixed 2 a @ receiptPart6 \<and>
         sublist d c \<and> sublist n c \<and> sublist p c"
proof -
  let ?r = "r\<lparr>entry_description := JStr d, entry_entityName := JStr n,
               entry_paymentMethod := JStr p, entry_amount := JNum a\<rparr>"
  let ?c = "receiptPart0 @ d @ receiptPart1 @ longDate e (entry_entryDate r) @
             receiptPart2 @ d @ receiptPart3 @ n @ receiptPart4 @ p @
             receiptPart5 @ toFixed 2 a @ receiptPart6"
  have run: "generateReceipt e ?r s
      = Inr (s\<lparr>downloads := downloads s @
                [\<lparr>filename = ''recibo_apoyo_'' @ replaceSpaces d @ ''_'' @
                              jsToString (entry_entryDate ?r) @ ''.html'',
                  mimeType = ''text/html'', content = ?c\<rparr>],
              message := msgReceipt\<rparr>)"
    by (simp add: generateReceipt_content [of ?r d a])
  have "sublist d (receiptPart0 @ d @ (receiptPart1 @ longDate e (entry_entryDate r) @
             receiptPart2 @ d @ receiptPart3 @ n @ receiptPart4 @ p @
             receiptPart5 @ toFixed 2 a @ receiptPart6))"
    by (rule sublist_appendI)
  then have d: "sublist d ?c"
    by simp
  have "sublist n ((receiptPart0 @ d @ receiptPart1 @ longDate e (entry_entryDate r) @
             receiptPart2 @ d @ receiptPart3) @ n @ (receiptPart4 @ p @
             receiptPart5 @ toFixed 2 a @ receiptPart6))"
    by (rule sublist_appendI)
  then have n: "sublist n ?c"
    by simp
  have "sublist p ((receiptPart0 @ d @ receiptPart1 @ longDate e (entry_entryDate r) @
             receiptPart2 @ d @ receiptPart3 @ n @ receiptPart4) @ p @
             (receiptPart5 @ toFixed 2 a @ receiptPart6))"
    by (rule sublist_appendI)
  then have p: "sublist p ?c"
    by simp
  from run d n p show ?thesis
    by blast
qed

theorem generateReceipt_verbatim_witness:
  "\<exists>f c. generateReceipt sampleEnv supportMarkup (initialApp ''2024-01-03'')
          = Inr ((initialApp ''2024-01-03'')
                  \<lparr>downloads := [\<lparr>filename = f, mimeType = ''text/html'', content = c\<rparr>],
                    message := msgReceipt\<rparr>) \<and>
         sublist ''<b>Apoyo</b>'' c \<and> sublist ''<i>Luis</i>'' c \<and> sublist ''<u>Efectivo</u>'' c"
proof -
  have r: "supportMarkup\<lparr>entry_description := JStr ''<b>Apoyo</b>'',
             entry_entityName := JStr ''<i>Luis</i>'',
             entry_paymentMethod := JStr ''<u>Efectivo</u>'',
             entry_amount := JNum (Fin 20)\<rparr> = supportMarkup"
    by (simp add: supportMarkup_def)
  have none: "downloads (initialApp ''2024-01-03'') = []"
    by (simp add: initialApp_def)
  from generateReceipt_verbatim [where e = sampleEnv and r = supportMarkup
      and d = "''<b>Apoyo</b>''" and n = "''<i>Luis</i>''" and p = "''<u>Efectivo</u>''"
      and a = "Fin 20" and s = "initialApp ''2024-01-03''"]
  show ?thesis
    unfolding r none by auto
qed

text \<open>
  C8, as the code has it. For a record whose description is a text and whose amount is a
  number of magnitude below \<open>10\<^sup>2\<^sup>1\<close>, the receipt shows the amount with exactly two
  decimal places between \<^verbatim>\<open>Monto: $\<close> and \<^verbatim>\<open> MXN\<close>.
\<close>

theorem generateReceipt_amount:
  "\<bar>x\<bar> < 10 ^ 21 \<longrightarrow>
     twoDecimals (toFixed 2 (Fin x)) \<and>
     (\<exists>f c. generateReceipt e (r\<lparr>entry_description := JStr d, entry_amount := JNum (Fin x)\<rparr>) s
            = Inr (s\<lparr>downloads := downloads s @
                     [\<lparr>filename = f, mimeType = ''text/html'', content = c\<rparr>],
                   message := msgReceipt\<rparr>) \<and>
           sublist (''Monto: $'' @ toFixed 2 (Fin x) @ '' MXN'') c)"
proof
  assume small: "\<bar>x\<bar> < 10 ^ 21"
  let ?r = "r\<lparr>entry_description := JStr d, entry_amount := JNum (Fin x)\<rparr>"
  let ?pre = "receiptPart0 @ d @ receiptPart1 @ longDate e (entry_entryDate ?r) @
      receiptPart2 @ d @ receiptPart3 @ jsToString (entry_entityName ?r) @
      receiptPart4 @ jsToString (entry_paymentMethod ?r)"
  have run: "generateReceipt e ?r s
      = Inr (s\<lparr>downloads := downloads s @
                [\<lparr>filename = ''recibo_apoyo_'' @ replaceSpaces d @ ''_'' @
                              jsToString (entry_entryDate ?r) @ ''.html'',
                  mimeType = ''text/html'',
                  content = ?pre @ receiptPart5 @ toFixed 2 (Fin x) @ receiptPart6\<rparr>],
              message := msgReceipt\<rparr>)"
    by (simp add: generateReceipt_content [of ?r d "Fin x"])
  have "sublist (''Monto: $'' @ toFixed 2 (Fin x) @ '' MXN'')
      (?pre @ receiptPart5 @ toFixed 2 (Fin x) @ receiptPart6)"
    by (rule sublist_amount)
  with run toFixed2_twoDecimals [OF small]
  show "twoDecimals (toFixed 2 (Fin x)) \<and>
     (\<exists>f c. generateReceipt e ?r s
            = Inr (s\<lparr>downloads := downloads s @
                     [\<lparr>filename = f, mimeType = ''text/html'', content = c\<rparr>],
                   message := msgReceipt\<rparr>) \<and>
           sublist (''Monto: $'' @ toFixed 2 (Fin x) @ '' MXN'') c)"
    by blast
qed

text \<open>Values of \<^verbatim>\<open>toFixed(2)\<close> on the sample amounts.\<close>

lemma floor_samples:
  "\<lfloor>(20001::rat) / 2\<rfloor> = 10000" "\<lfloor>(8001::rat) / 2\<rfloor> = 4000"
  "\<lfloor>(4001::rat) / 2\<rfloor> = 2000" "\<lfloor>(10101::rat) / 2\<rfloor> = 5050"
  "\<lfloor>(2501::rat) / 2\<rfloor> = 1250"
  by (rule floor_unique, simp, simp)+

lemma natToDigits_samples:
  "natToDigits 10000 = ''10000''" "natToDigits 4000 = ''4000''" "natToDigits 2000 = ''2000''"
  "natToDigits 5050 = ''5050''" "natToDigits 1250 = ''1250''"
  by (simp_all add: natToDigits.simps digitChar_def)

lemma toFixed_samples:
  "toFixed 2 (Fin 100) = ''100.00''" "toFixed 2 (Fin 40) = ''40.00''"
  "toFixed 2 (Fin 20) = ''20.00''" "toFixed 2 (Fin (101 / 2)) = ''50.50''"
  "toFixed 2 (Fin (25 / 2)) = ''12.50''"
  by (simp_all add: toFixed.simps Let_def floor_samples natToDigits_samples)

theorem generateReceipt_amount_witness:
  "\<bar>101 / 2 :: rat\<bar> < 10 ^ 21 \<and>
   (\<exists>f c. generateReceipt sampleEnv support50 (initialApp ''2024-01-03'')
          = Inr ((initialApp ''2024-01-03'')
                  \<lparr>downloads := [\<lparr>filename = f, mimeType = ''text/html'', content = c\<rparr>],
                    message := msgReceipt\<rparr>) \<and>
         sublist ''Monto: $50.50 MXN'' c)"
proof -
  have small: "\<bar>101 / 2 :: rat\<bar> < 10 ^ 21"
    by simp
  have r: "support50\<lparr>entry_description := JStr ''Apoyo'', entry_amount := JNum (Fin (101 / 2))\<rparr>
      = support50"
    by (simp add: support50_def)
  have none: "downloads (initialApp ''2024-01-03'') = []"
    by (simp add: initialApp_def)
  from small generateReceipt_amount [where x = "101 / 2" and e = sampleEnv and r = support50
      and d = "''Apoyo''" and s = "initialApp ''2024-01-03''"]
  have "\<exists>f c. generateReceipt sampleEnv support50 (initialApp ''2024-01-03'')
          = Inr ((initialApp ''2024-01-03'')
                  \<lparr>downloads := [\<lparr>filename = f, mimeType = ''text/html'', content = c\<rparr>],
                    message := msgReceipt\<rparr>) \<and>
         sublist (''Monto: $'' @ toFixed 2 (Fin (101 / 2)) @ '' MXN'') c"
    unfolding r none by auto
  with small show ?thesis
    by (simp add: toFixed_samples)
qed

text \<open>
  The claim as the specification words it fails on a support of \<open>10\<^sup>2\<^sup>1\<close>: \<^verbatim>\<open>toFixed\<close>
  prints it with an exponent and no decimal place, and so does the receipt.
\<close>

lemma toFixed_big: "toFixed 2 (Fin (10 ^ 21)) = ''1e+21''"
  by (simp add: toFixed.simps positiveToString_def expNotation_def stripZeros_def
        natToDigits.simps digitChar_def)

theorem generateReceipt_big_counterexample:
  "toFixed 2 (Fin (10 ^ 21)) = ''1e+21'' \<and> \<not> twoDecimals ''1e+21'' \<and>
   (\<exists>f c. generateReceipt sampleEnv supportBig (initialApp ''2024-01-03'')
          = Inr ((initialApp ''2024-01-03'')
                  \<lparr>downloads := [\<lparr>filename = f, mimeType = ''text/html'', content = c\<rparr>],
                    message := msgReceipt\<rparr>) \<and>
         sublist ''Monto: $1e+21 MXN'' c)"
proof -
  have not2: "\<not> twoDecimals ''1e+21''"
    by (simp add: twoDecimals_def isDigit_def)
  let ?pre = "receiptPart0 @ ''Apoyo'' @ receiptPart1 @ longDate sampleEnv (entry_entryDate supportBig) @
      receiptPart2 @ ''Apoyo'' @ receiptPart3 @ jsToString (entry_entityName supportBig) @
      receiptPart4 @ jsToString (entry_paymentMethod supportBig)"
  let ?f = "''recibo_apoyo_'' @ replaceSpaces ''Apoyo'' @ ''_'' @
      jsToString (entry_entryDate supportBig) @ ''.html''"
  let ?c = "?pre @ receiptPart5 @ ''1e+21'' @ receiptPart6"
  have fields: "entry_description supportBig = JStr ''Apoyo''"
      "entry_amount supportBig = JNum (Fin (10 ^ 21))"
    by (simp_all add: supportBig_def)
  have none: "downloads (initialApp ''2024-01-03'') = []"
    by (simp add: initialApp_def)
  have run: "generateReceipt sampleEnv supportBig (initialApp ''2024-01-03'')
      = Inr ((initialApp ''2024-01-03'')
              \<lparr>downloads := [\<lparr>filename = ?f, mimeType = ''text/html'', content = ?c\<rparr>],
                message := msgReceipt\<rparr>)"
    by (simp only: generateReceipt_content [OF fields] toFixed_big none append_assoc append_Nil)
  have sub: "sublist (''Monto: $'' @ ''1e+21'' @ '' MXN'') ?c"
    by (rule sublist_amount)
  show ?thesis
  proof (intro conjI exI)
    show "toFixed 2 (Fin (10 ^ 21)) = ''1e+21''"
      by (rule toFixed_big)
    show "\<not> twoDecimals ''1e+21''"
      by (rule not2)
    show "generateReceipt sampleEnv supportBig (initialApp ''2024-01-03'')
      = Inr ((initialApp ''2024-01-03'')
              \<lparr>downloads := [\<lparr>filename = ?f, mimeType = ''text/html'', content = ?c\<rparr>],
                message := msgReceipt\<rparr>)"
      by (rule run)
    show "sublist ''Monto: $1e+21 MXN'' ?c"
      using sub by simp
  qed
qed

section \<open>Properties of the export\<close>

lemma quotedCell_text:
  "isStr v \<or> \<not> truthy v \<Longrightarrow> quotedCell v = Inr (csvQuote (textOf v))"
  by (cases v) (auto simp: quotedCell_def csvQuote_def textOf_def isStr_def replaceQuotes_def)

lemma amountCell_text:
  "isNum v \<or> \<not> truthy v \<Longrightarrow> amountCell v = Inr (amountText v)"
  by (cases v) (auto simp: amountCell_def amountText_def isNum_def)

lemma methodText_or: "elemToString (if truthy v then v else JStr []) = methodText v"
  by (simp add: methodText_def)

lemma csvRow_exportable:
  assumes "exportable r"
  shows "csvRow e r =
    Inr [elemToString (entry_id r), localeDate e (entry_timestamp r),
         csvQuote (textOf (entry_description r)), amountText (entry_amount r),
         elemToString (entry_type r), csvQuote (textOf (entry_entityName r)),
         methodText (entry_paymentMethod r)]"
  using assms
  by (simp add: csvRow_def exportable_def quotedCell_text amountCell_text methodText_or)

lemma joinWith_row: "joinWith '','' [a, b, c, d, f, g, h]
    = a @ '','' @ b @ '','' @ c @ '','' @ d @ '','' @ f @ '','' @ g @ '','' @ h"
  by simp

lemma csvRows_exportable:
  "\<forall>r\<in>set es. exportable r \<Longrightarrow>
   \<exists>rows. csvRows e es = Inr rows \<and> length rows = length es \<and>
          map (joinWith '','') rows = map (rowLine e) es"
proof (induction es)
  case Nil
  show ?case by simp
next
  case (Cons r es)
  then obtain rows where rows: "csvRows e es = Inr rows" "length rows = length es"
      "map (joinWith '','') rows = map (rowLine e) es"
    by auto
  from Cons.prems have "exportable r"
    by simp
  from csvRow_exportable [OF this, of e] rows show ?case
    by (simp add: rowLine_def del: joinWith.simps add: joinWith_row)
qed

lemma headerLine_join: "joinWith '','' header = headerLine"
  by (simp add: header_def headerLine_def)

lemma exportToCSV_exportable:
  assumes "entries s \<noteq> []" and "\<forall>r\<in>set (entries s). exportable r"
  shows "exportToCSV e s =
     Inr (s\<lparr>downloads := downloads s @
            [\<lparr>filename = ''registros_contables.csv'',
              mimeType = ''text/csv;charset=utf-8;'',
              content = headerLine @ ''\<newline>'' @ joinWith ''\<newline>'' (map (rowLine e) (entries s))\<rparr>],
          message := msgExported\<rparr>)"
proof -
  from csvRows_exportable [OF assms(2), of e] obtain rows where
    "csvRows e (entries s) = Inr rows" "map (joinWith '','') rows = map (rowLine e) (entries s)"
    by blast
  with assms(1) show ?thesis
    by (simp add: exportToCSV_def csvContent_def headerLine_join)
qed

lemma amountText_twoDecimals:
  "amountBelow v \<Longrightarrow> twoDecimals (amountText v)"
proof (cases v)
  case (JNum n)
  assume "amountBelow v"
  with JNum show ?thesis
  proof (cases n)
    case (Fin x)
    assume "amountBelow v"
    with JNum Fin have small: "\<bar>x\<bar> < 10 ^ 21"
      by (simp add: amountBelow_def)
    have zero: "twoDecimals ''0.00''"
      by (simp add: twoDecimals_def isDigit_def)
    from JNum Fin zero toFixed2_twoDecimals [OF small] show ?thesis
      by (simp add: amountText_def)
  qed (simp_all add: amountBelow_def amountText_def twoDecimals_def isDigit_def)
qed (simp_all add: amountBelow_def amountText_def twoDecimals_def isDigit_def)

text \<open>
  C5, as the code has it. For every non-empty record set whose descriptions and names are
  texts or missing and whose amounts are numbers or missing, the export is the header row
  followed by one row per record in the order of the set. A row is the identifier, the
  locale date of the creation time stamp, the description in double quotes with its double
  quotes doubled, the amount, the category, the name quoted in the same way and the payment
  method, separated by commas. The amount has exactly two decimal places when the number
  is below \<open>10\<^sup>2\<^sup>1\<close> in magnitude, and is \<^verbatim>\<open>0.00\<close> when there is none.
\<close>

theorem exportToCSV_rows:
  "entries s \<noteq> [] \<and> (\<forall>r\<in>set (entries s). exportable r) \<longrightarrow>
     exportToCSV e s =
       Inr (s\<lparr>downloads := downloads s @
              [\<lparr>filename = ''registros_contables.csv'',
                mimeType = ''text/csv;charset=utf-8;'',
                content = headerLine @ ''\<newline>'' @
                          joinWith ''\<newline>'' (map (rowLine e) (entries s))\<rparr>],
            message := msgExported\<rparr>) \<and>
     (\<forall>r\<in>set (entries s). amountBelow (entry_amount r) \<longrightarrow>
                              twoDecimals (amountText (entry_amount r)))"
  by (simp add: exportToCSV_exportable amountText_twoDecimals)

lemma rowLine_income100:
  "rowLine sampleEnv income100 = ''a1,1/1/2024,\"Sueldo\",100.00,ingreso,\"Acme\",Efectivo''"
  by (simp add: rowLine_def income100_def sampleEnv_def csvQuote_def textOf_def replaceQuotes_def
        amountText_def methodText_def toFixed_samples)

lemma rowLine_expense40:
  "rowLine sampleEnv expense40 = ''a2,1/2/2024,\"Comida\",40.00,gasto,\"Tienda\",Tarjeta''"
  by (simp add: rowLine_def expense40_def sampleEnv_def csvQuote_def textOf_def replaceQuotes_def
        amountText_def methodText_def toFixed_samples)

lemma rowLine_support20:
  "rowLine sampleEnv support20 = ''a3,1/3/2024,\"Apoyo\",20.00,apoyo,\"Luis\",Transferencia''"
  by (simp add: rowLine_def support20_def sampleEnv_def csvQuote_def textOf_def replaceQuotes_def
        amountText_def methodText_def toFixed_samples)

lemma exportable_samples:
  "exportable income100 \<and> exportable expense40 \<and> exportable support20 \<and>
   exportable supportBig \<and> exportable bareEntry \<and> exportable quotedEntry"
  by (simp add: exportable_def isStr_def isNum_def income100_def expense40_def support20_def
        supportBig_def bareEntry_def quotedEntry_def)

theorem exportToCSV_rows_witness:
  "entries (withEntries [income100, expense40, support20]) \<noteq> [] \<and>
   exportable income100 \<and> exportable expense40 \<and> exportable support20 \<and>
   exportToCSV sampleEnv (withEntries [income100, expense40, support20]) =
     Inr ((withEntries [income100, expense40, support20])
          \<lparr>downloads :=
             [\<lparr>filename = ''registros_contables.csv'',
               mimeType = ''text/csv;charset=utf-8;'',
               content =
                 ''ID,Fecha,Descripci'' @ [CHR 0xC3, CHR 0xB3] @ ''n,Monto,Tipo,Entidad,M'' @
                 [CHR 0xC3, CHR 0xA9] @ ''todo de Pago\<newline>'' @
                 ''a1,1/1/2024,\"Sueldo\",100.00,ingreso,\"Acme\",Efectivo\<newline>'' @
                 ''a2,1/2/2024,\"Comida\",40.00,gasto,\"Tienda\",Tarjeta\<newline>'' @
                 ''a3,1/3/2024,\"Apoyo\",20.00,apoyo,\"Luis\",Transferencia''\<rparr>],
           message := msgExported\<rparr>) \<and>
   amountBelow (entry_amount income100) \<and> twoDecimals (amountText (entry_amount income100))"
proof -
  let ?s = "withEntries [income100, expense40, support20]"
  have es: "entries ?s = [income100, expense40, support20]" and none: "downloads ?s = []"
    by (simp_all add: withEntries_def initialApp_def)
  have ok: "entries ?s \<noteq> [] \<and> (\<forall>r\<in>set (entries ?s). exportable r)"
    by (simp add: es exportable_samples)
  have below: "amountBelow (entry_amount income100)"
    by (simp add: amountBelow_def income100_def)
  from ok exportToCSV_rows [of ?s sampleEnv]
  have run: "exportToCSV sampleEnv ?s =
       Inr (?s\<lparr>downloads := downloads ?s @
              [\<lparr>filename = ''registros_contables.csv'',
                mimeType = ''text/csv;charset=utf-8;'',
                content = headerLine @ ''\<newline>'' @
                          joinWith ''\<newline>'' (map (rowLine sampleEnv) (entries ?s))\<rparr>],
            message := msgExported\<rparr>)"
    and two: "\<forall>r\<in>set (entries ?s). amountBelow (entry_amount r) \<longrightarrow>
                              twoDecimals (amountText (entry_amount r))"
    by blast+
  from two below have "twoDecimals (amountText (entry_amount income100))"
    by (simp add: es)
  moreover from run have "exportToCSV sampleEnv ?s =
     Inr (?s\<lparr>downloads :=
             [\<lparr>filename = ''registros_contables.csv'',
               mimeType = ''text/csv;charset=utf-8;'',
               content =
                 ''ID,Fecha,Descripci'' @ [CHR 0xC3, CHR 0xB3] @ ''n,Monto,Tipo,Entidad,M'' @
                 [CHR 0xC3, CHR 0xA9] @ ''todo de Pago\<newline>'' @
                 ''a1,1/1/2024,\"Sueldo\",100.00,ingreso,\"Acme\",Efectivo\<newline>'' @
                 ''a2,1/2/2024,\"Comida\",40.00,gasto,\"Tienda\",Tarjeta\<newline>'' @
                 ''a3,1/3/2024,\"Apoyo\",20.00,apoyo,\"Luis\",Transferencia''\<rparr>],
           message := msgExported\<rparr>)"
    by (simp add: es none headerLine_def rowLine_income100 rowLine_expense40 rowLine_support20)
  ultimately show ?thesis
    using ok below exportable_samples by simp
qed

text \<open>
  The claim as the specification words it fails on a record with the amount \<open>10\<^sup>2\<^sup>1\<close>:
  its amount column is \<^verbatim>\<open>1e+21\<close>.
\<close>

lemma toFixed_big_numeral: "toFixed 2 (Fin 1000000000000000000000) = ''1e+21''"
  using toFixed_big by simp

lemma rowLine_supportBig:
  "rowLine sampleEnv supportBig = ''a5,1/3/2024,\"Apoyo\",1e+21,apoyo,\"Luis\",Efectivo''"
  by (simp add: rowLine_def supportBig_def sampleEnv_def csvQuote_def textOf_def
        replaceQuotes_def amountText_def methodText_def toFixed_big_numeral)

theorem exportToCSV_big_counterexample:
  "exportToCSV sampleEnv (withEntries [supportBig]) =
     Inr ((withEntries [supportBig])
          \<lparr>downloads :=
             [\<lparr>filename = ''registros_contables.csv'',
               mimeType = ''text/csv;charset=utf-8;'',
               content = headerLine @ ''\<newline>'' @
                  ''a5,1/3/2024,\"Apoyo\",1e+21,apoyo,\"Luis\",Efectivo''\<rparr>],
           message := msgExported\<rparr>) \<and>
   amountText (entry_amount supportBig) = ''1e+21'' \<and> \<not> twoDecimals ''1e+21''"
proof -
  have es: "entries (withEntries [supportBig]) = [supportBig]"
    and none: "downloads (withEntries [supportBig]) = []"
    by (simp_all add: withEntries_def initialApp_def)
  have "exportToCSV sampleEnv (withEntries [supportBig]) =
     Inr ((withEntries [supportBig])
          \<lparr>downloads := downloads (withEntries [supportBig]) @
             [\<lparr>filename = ''registros_contables.csv'',
               mimeType = ''text/csv;charset=utf-8;'',
               content = headerLine @ ''\<newline>'' @
                  joinWith ''\<newline>'' (map (rowLine sampleEnv) (entries (withEntries [supportBig])))\<rparr>],
           message := msgExported\<rparr>)"
    by (rule exportToCSV_exportable) (simp_all add: es exportable_samples)
  moreover have "amountText (entry_amount supportBig) = ''1e+21''"
    by (simp add: supportBig_def amountText_def toFixed_big_numeral)
  moreover have "\<not> twoDecimals ''1e+21''"
    by (simp add: twoDecimals_def isDigit_def)
  ultimately show ?thesis
    by (simp add: es none rowLine_supportBig)
qed

section \<open>Records with missing or ill-typed fields\<close>

lemma js_error_TypeError: "(err :: js_error) = TypeError"
  by (cases err) simp

lemma quotedCell_bad: "\<not> (isStr v \<or> \<not> truthy v) \<Longrightarrow> quotedCell v = Inl TypeError"
  by (cases v) (simp_all add: isStr_def quotedCell_def)

lemma amountCell_bad: "\<not> (isNum v \<or> \<not> truthy v) \<Longrightarrow> amountCell v = Inl TypeError"
  by (cases v) (simp_all add: isNum_def amountCell_def)

lemma csvRow_not_exportable:
  assumes "\<not> exportable r"
  shows "csvRow e r = Inl TypeError"
proof -
  from assms have "\<not> (isStr (entry_description r) \<or> \<not> truthy (entry_description r)) \<or>
        \<not> (isNum (entry_amount r) \<or> \<not> truthy (entry_amount r)) \<or>
        \<not> (isStr (entry_entityName r) \<or> \<not> truthy (entry_entityName r))"
    unfolding exportable_def by blast
  then have "quotedCell (entry_description r) = Inl TypeError \<or>
        amountCell (entry_amount r) = Inl TypeError \<or>
        quotedCell (entry_entityName r) = Inl TypeError"
    using quotedCell_bad amountCell_bad by blast
  then show ?thesis
    by (auto simp: csvRow_def js_error_TypeError split: sum.splits)
qed

lemma csvRows_not_exportable:
  "r \<in> set es \<Longrightarrow> \<not> exportable r \<Longrightarrow> csvRows e es = Inl TypeError"
proof (induction es)
  case Nil
  then show ?case by simp
next
  case (Cons x es)
  show ?case
  proof (cases "exportable x")
    case True
    with Cons have "csvRows e es = Inl TypeError"
      by auto
    then show ?thesis
      by (simp add: js_error_TypeError split: sum.splits)
  next
    case False
    then show ?thesis
      by (simp add: csvRow_not_exportable)
  qed
qed

lemma csvRows_map:
  "csvRows e es = Inr rows \<Longrightarrow> map (csvRow e) es = map Inr rows"
proof (induction es arbitrary: rows)
  case Nil
  then show ?case by simp
next
  case (Cons x es)
  then show ?case
    by (auto split: sum.splits)
qed

lemma csvQuote_falsy: "\<not> truthy v \<Longrightarrow> csvQuote (textOf v) = [CHR 0x22, CHR 0x22]"
  by (cases v) (simp_all add: csvQuote_def textOf_def replaceQuotes_def)

lemma amountText_falsy: "\<not> truthy v \<Longrightarrow> amountText v = ''0.00''"
  by (cases v) (auto simp: amountText_def)

text \<open>
  A record whose amount is not a number never reaches the export: the list that shows the
  export button does not render with it.
\<close>

lemma rendersList_amount: "rendersList es \<Longrightarrow> r \<in> set es \<Longrightarrow> isNum (entry_amount r)"
  by (auto simp: rendersList_def list_all_iff listItemAmount_def isNum_def
        split: jsval.splits)

lemma rendersList_missing_amount:
  "r \<in> set es \<Longrightarrow> entry_amount r = Undefined \<Longrightarrow> \<not> rendersList es"
  by (force simp: rendersList_def list_all_iff listItemAmount_def)

text \<open>
  C9, as the code has it. The row of a record whose description and name are texts or
  falsy (missing, \<^verbatim>\<open>null\<close>, empty, \<^verbatim>\<open>false\<close>, 0, NaN) and whose amount is a number or falsy
  has seven columns: the fourth is \<^verbatim>\<open>0.00\<close> when the amount is falsy, the third and the
  sixth are an empty quoted field when the description and the name are falsy, the seventh
  is empty when the payment method is falsy. A non-empty set of such records is exported:
  the file is the header row followed by these rows, their columns joined by commas, one
  per line. The export is not total: a record with a truthy description or name that is
  not a text, or a truthy amount that is not a number, makes it throw, and among the
  records that the list of the screen can show these are the records with a truthy
  description or name that is not a text.
\<close>

theorem exportToCSV_malformed:
  "(exportable r \<longrightarrow>
      (\<exists>cells. csvRow e r = Inr cells \<and> length cells = 7 \<and>
         (\<not> truthy (entry_description r) \<longrightarrow> cells ! 2 = [CHR 0x22, CHR 0x22]) \<and>
         (\<not> truthy (entry_amount r) \<longrightarrow> cells ! 3 = ''0.00'') \<and>
         (\<not> truthy (entry_entityName r) \<longrightarrow> cells ! 5 = [CHR 0x22, CHR 0x22]) \<and>
         (\<not> truthy (entry_paymentMethod r) \<longrightarrow> cells ! 6 = []))) \<and>
   (entries s \<noteq> [] \<and> (\<forall>x\<in>set (entries s). exportable x) \<longrightarrow>
      (\<exists>rows. map (csvRow e) (entries s) = map Inr rows \<and>
         exportToCSV e s =
           Inr (s\<lparr>downloads := downloads s @
                  [\<lparr>filename = ''registros_contables.csv'',
                    mimeType = ''text/csv;charset=utf-8;'',
                    content = headerLine @ ''\<newline>'' @
                              joinWith ''\<newline>'' (map (joinWith '','') rows)\<rparr>],
                message := msgExported\<rparr>))) \<and>
   (r \<in> set (entries s) \<and> \<not> exportable r \<longrightarrow> exportToCSV e s = Inl TypeError) \<and>
   (r \<in> set (entries s) \<and> rendersList (entries s) \<and> \<not> exportable r \<longrightarrow>
      truthy (entry_description r) \<and> \<not> isStr (entry_description r) \<or>
      truthy (entry_entityName r) \<and> \<not> isStr (entry_entityName r))"
proof (intro conjI impI)
  assume "exportable r"
  from csvRow_exportable [OF this, of e]
  show "\<exists>cells. csvRow e r = Inr cells \<and> length cells = 7 \<and>
         (\<not> truthy (entry_description r) \<longrightarrow> cells ! 2 = [CHR 0x22, CHR 0x22]) \<and>
         (\<not> truthy (entry_amount r) \<longrightarrow> cells ! 3 = ''0.00'') \<and>
         (\<not> truthy (entry_entityName r) \<longrightarrow> cells ! 5 = [CHR 0x22, CHR 0x22]) \<and>
         (\<not> truthy (entry_paymentMethod r) \<longrightarrow> cells ! 6 = [])"
    by (simp add: methodText_def csvQuote_falsy amountText_falsy)
next
  assume ok: "entries s \<noteq> [] \<and> (\<forall>x\<in>set (entries s). exportable x)"
  then obtain rows where rows: "csvRows e (entries s) = Inr rows"
    using csvRows_exportable [of "entries s" e] by blast
  from ok rows have "exportToCSV e s =
           Inr (s\<lparr>downloads := downloads s @
                  [\<lparr>filename = ''registros_contables.csv'',
                    mimeType = ''text/csv;charset=utf-8;'',
                    content = headerLine @ ''\<newline>'' @
                              joinWith ''\<newline>'' (map (joinWith '','') rows)\<rparr>],
                message := msgExported\<rparr>)"
    by (simp add: exportToCSV_def csvContent_def headerLine_join)
  with csvRows_map [OF rows]
  show "\<exists>rows. map (csvRow e) (entries s) = map Inr rows \<and>
         exportToCSV e s =
           Inr (s\<lparr>downloads := downloads s @
                  [\<lparr>filename = ''registros_contables.csv'',
                    mimeType = ''text/csv;charset=utf-8;'',
                    content = headerLine @ ''\<newline>'' @
                              joinWith ''\<newline>'' (map (joinWith '','') rows)\<rparr>],
                message := msgExported\<rparr>)"
    by blast
next
  assume bad: "r \<in> set (entries s) \<and> \<not> exportable r"
  then have "entries s \<noteq> []"
    by auto
  moreover from bad have "csvRows e (entries s) = Inl TypeError"
    by (blast intro: csvRows_not_exportable)
  ultimately show "exportToCSV e s = Inl TypeError"
    by (simp add: exportToCSV_def)
next
  assume bad: "r \<in> set (entries s) \<and> rendersList (entries s) \<and> \<not> exportable r"
  then have "isNum (entry_amount r)"
    by (blast intro: rendersList_amount)
  with bad show "truthy (entry_description r) \<and> \<not> isStr (entry_description r) \<or>
      truthy (entry_entityName r) \<and> \<not> isStr (entry_entityName r)"
    unfolding exportable_def by blast
qed

lemma csvRow_bareEntry:
  "csvRow sampleEnv bareEntry = Inr [''a7'', ''1/4/2024'', ''\"\"'', ''0.00'', ''gasto'', ''\"\"'', '''']"
  by (simp add: csvRow_def bareEntry_def sampleEnv_def quotedCell_def amountCell_def)

theorem exportToCSV_malformed_witness:
  "\<not> truthy (entry_amount bareEntry) \<and> \<not> truthy (entry_description bareEntry) \<and>
   \<not> truthy (entry_entityName bareEntry) \<and> \<not> truthy (entry_paymentMethod bareEntry) \<and>
   exportable bareEntry \<and> rendersList [bareEntry] \<and>
   csvRow sampleEnv bareEntry = Inr [''a7'', ''1/4/2024'', ''\"\"'', ''0.00'', ''gasto'', ''\"\"'', ''''] \<and>
   exportToCSV sampleEnv (withEntries [bareEntry])
     = Inr ((withEntries [bareEntry])
         \<lparr>downloads := [\<lparr>filename = ''registros_contables.csv'',
                         mimeType = ''text/csv;charset=utf-8;'',
                         content = headerLine @ ''\<newline>'' @ ''a7,1/4/2024,\"\",0.00,gasto,\"\",''\<rparr>],
           message := msgExported\<rparr>) \<and>
   numberedEntry \<in> set (entries (withEntries [income100, numberedEntry])) \<and>
   rendersList (entries (withEntries [income100, numberedEntry])) \<and>
   \<not> exportable numberedEntry \<and>
   exportToCSV sampleEnv (withEntries [income100, numberedEntry]) = Inl TypeError \<and>
   truthy (entry_description numberedEntry) \<and> \<not> isStr (entry_description numberedEntry)"
proof -
  have falsy: "\<not> truthy (entry_amount bareEntry) \<and> \<not> truthy (entry_description bareEntry) \<and>
      \<not> truthy (entry_entityName bareEntry) \<and> \<not> truthy (entry_paymentMethod bareEntry)"
    by (simp add: bareEntry_def)
  have bare: "exportable bareEntry"
    by (simp add: exportable_samples)
  have shown: "rendersList [bareEntry]" "rendersList (entries (withEntries [income100, numberedEntry]))"
    by (simp_all add: rendersList_def listItemAmount_def bareEntry_def income100_def
          numberedEntry_def withEntries_def initialApp_def)
  have es: "entries (withEntries [bareEntry]) = [bareEntry]"
      "downloads (withEntries [bareEntry]) = []"
      "entries (withEntries [income100, numberedEntry]) = [income100, numberedEntry]"
    by (simp_all add: withEntries_def initialApp_def)
  have bad: "\<not> exportable numberedEntry"
      "truthy (entry_description numberedEntry) \<and> \<not> isStr (entry_description numberedEntry)"
    by (simp_all add: exportable_def isStr_def isNum_def numberedEntry_def)
  have pre: "entries (withEntries [bareEntry]) \<noteq> [] \<and>
      (\<forall>x\<in>set (entries (withEntries [bareEntry])). exportable x)"
    by (simp add: es bare)
  with exportToCSV_malformed [where r = bareEntry and s = "withEntries [bareEntry]" and e = sampleEnv]
  obtain rows where rows: "map (csvRow sampleEnv) (entries (withEntries [bareEntry])) = map Inr rows"
    and out: "exportToCSV sampleEnv (withEntries [bareEntry]) =
           Inr ((withEntries [bareEntry])\<lparr>downloads := downloads (withEntries [bareEntry]) @
                  [\<lparr>filename = ''registros_contables.csv'',
                    mimeType = ''text/csv;charset=utf-8;'',
                    content = headerLine @ ''\<newline>'' @
                              joinWith ''\<newline>'' (map (joinWith '','') rows)\<rparr>],
                message := msgExported\<rparr>)"
    by blast
  from rows have "[Inr [''a7'', ''1/4/2024'', ''\"\"'', ''0.00'', ''gasto'', ''\"\"'', '''']]
      = (map Inr rows :: (js_error + string list) list)"
    by (simp only: es list.map csvRow_bareEntry)
  then have rows_eq: "rows = [[''a7'', ''1/4/2024'', ''\"\"'', ''0.00'', ''gasto'', ''\"\"'', '''']]"
    by (cases rows) auto
  have ok: "exportToCSV sampleEnv (withEntries [bareEntry])
     = Inr ((withEntries [bareEntry])
         \<lparr>downloads := [\<lparr>filename = ''registros_contables.csv'',
                         mimeType = ''text/csv;charset=utf-8;'',
                         content = headerLine @ ''\<newline>'' @ ''a7,1/4/2024,\"\",0.00,gasto,\"\",''\<rparr>],
           message := msgExported\<rparr>)"
    unfolding out rows_eq es by simp
  have member: "numberedEntry \<in> set (entries (withEntries [income100, numberedEntry]))"
    by (simp add: es)
  with bad(1)
    exportToCSV_malformed [where r = numberedEntry and s = "withEntries [income100, numberedEntry]"
      and e = sampleEnv]
  have thrown: "exportToCSV sampleEnv (withEntries [income100, numberedEntry]) = Inl TypeError"
    by blast
  show ?thesis
    by (intro conjI falsy [THEN conjunct1] falsy [THEN conjunct2, THEN conjunct1]
        falsy [THEN conjunct2, THEN conjunct2, THEN conjunct1]
        falsy [THEN conjunct2, THEN conjunct2, THEN conjunct2]
        bare shown csvRow_bareEntry ok member bad(1) thrown
        bad(2) [THEN conjunct1] bad(2) [THEN conjunct2])
qed

text \<open>
  The claim as it is worded fails on a record that the screen shows and whose description
  is the number 2024: a number has no \<^verbatim>\<open>replace\<close> method, the export throws and produces
  no file.
\<close>

theorem exportToCSV_description_counterexample:
  "rendersList [income100, numberedEntry] \<and>
   truthy (entry_description numberedEntry) \<and>
   exportToCSV sampleEnv (withEntries [income100, numberedEntry]) = Inl TypeError"
  by (simp add: exportToCSV_def withEntries_def initialApp_def csvRow_def income100_def
        numberedEntry_def quotedCell_def amountCell_def replaceQuotes_def rendersList_def
        listItemAmount_def)

section \<open>Reading the export back\<close>

lemma csvParse_unquoted_comma:
  "CHR '','' \<notin> set t \<Longrightarrow> CHR 0x0A \<notin> set t \<Longrightarrow>
   csvParse Unquoted f r (t @ CHR '','' # rest) = csvParse FieldStart [] (r @ [f @ t]) rest"
  by (induction t arbitrary: f) auto

lemma csvParse_unquoted_newline:
  "CHR '','' \<notin> set t \<Longrightarrow> CHR 0x0A \<notin> set t \<Longrightarrow>
   csvParse Unquoted f r (t @ CHR 0x0A # rest) = (r @ [f @ t]) # csvParse FieldStart [] [] rest"
  by (induction t arbitrary: f) auto

lemma csvParse_unquoted_end:
  "CHR '','' \<notin> set t \<Longrightarrow> CHR 0x0A \<notin> set t \<Longrightarrow>
   csvParse Unquoted f r t = [r @ [f @ t]]"
  by (induction t arbitrary: f) auto

lemma csvParse_plain_comma:
  assumes "plainCell t"
  shows "csvParse FieldStart [] r (t @ CHR '','' # rest) = csvParse FieldStart [] (r @ [t]) rest"
proof (cases t)
  case Nil
  then show ?thesis by simp
next
  case (Cons c cs)
  with assms have "c \<noteq> CHR 0x22" "c \<noteq> CHR '',''" "c \<noteq> CHR 0x0A"
      "CHR '','' \<notin> set cs" "CHR 0x0A \<notin> set cs"
    by (auto simp: plainCell_def)
  with Cons csvParse_unquoted_comma [of cs "[c]" r rest] show ?thesis
    by simp
qed

lemma csvParse_plain_newline:
  assumes "plainCell t"
  shows "csvParse FieldStart [] r (t @ CHR 0x0A # rest) = (r @ [t]) # csvParse FieldStart [] [] rest"
proof (cases t)
  case Nil
  then show ?thesis by simp
next
  case (Cons c cs)
  with assms have "c \<noteq> CHR 0x22" "c \<noteq> CHR '',''" "c \<noteq> CHR 0x0A"
      "CHR '','' \<notin> set cs" "CHR 0x0A \<notin> set cs"
    by (auto simp: plainCell_def)
  with Cons csvParse_unquoted_newline [of cs "[c]" r rest] show ?thesis
    by simp
qed

lemma csvParse_plain_end:
  assumes "plainCell t"
  shows "csvParse FieldStart [] r t = [r @ [t]]"
proof (cases t)
  case Nil
  then show ?thesis by simp
next
  case (Cons c cs)
  with assms have "c \<noteq> CHR 0x22" "c \<noteq> CHR '',''" "c \<noteq> CHR 0x0A"
      "CHR '','' \<notin> set cs" "CHR 0x0A \<notin> set cs"
    by (auto simp: plainCell_def)
  with Cons csvParse_unquoted_end [of cs "[c]" r] show ?thesis
    by simp
qed

text \<open>A quoted field reads back as the text that was quoted, whatever the text contains.\<close>

lemma replaceQuotes_Cons:
  "replaceQuotes (c # cs) = (if c = CHR 0x22 then [CHR 0x22, CHR 0x22] else [c]) @ replaceQuotes cs"
  by (simp add: replaceQuotes_def)

lemma csvParse_quoted_body:
  "csvParse Quoted f r (replaceQuotes t @ CHR 0x22 # rest) = csvParse QuoteSeen (f @ t) r rest"
proof (induction t arbitrary: f)
  case Nil
  show ?case by (simp add: replaceQuotes_def)
next
  case (Cons c cs)
  show ?case
  proof (cases "c = CHR 0x22")
    case True
    with Cons.IH [of "f @ [CHR 0x22]"] show ?thesis
      by (simp add: replaceQuotes_Cons)
  next
    case False
    with Cons.IH [of "f @ [c]"] show ?thesis
      by (simp add: replaceQuotes_Cons)
  qed
qed

lemma csvParse_quoted_comma:
  "csvParse FieldStart [] r (csvQuote t @ CHR '','' # rest) = csvParse FieldStart [] (r @ [t]) rest"
  using csvParse_quoted_body [of "[]" r t "CHR '','' # rest"]
  by (simp add: csvQuote_def)

text \<open>The amount column never needs quotes.\<close>

lemma isDigit_plain: "isDigit c \<Longrightarrow> c \<noteq> CHR '','' \<and> c \<noteq> CHR 0x0A \<and> c \<noteq> CHR 0x22"
  by (auto simp: isDigit_def)

lemma digits_plain:
  "list_all isDigit ds \<Longrightarrow> CHR '','' \<notin> set ds \<and> CHR 0x0A \<notin> set ds \<and> CHR 0x22 \<notin> set ds"
  by (auto simp: list_all_iff dest: isDigit_plain)

lemma natToDigits_plain:
  "CHR '','' \<notin> set (natToDigits n) \<and> CHR 0x0A \<notin> set (natToDigits n) \<and>
   CHR 0x22 \<notin> set (natToDigits n)"
  by (rule digits_plain) (rule natToDigits_digits)

lemma expNotation_plain:
  "CHR '','' \<notin> set (expNotation n) \<and> CHR 0x0A \<notin> set (expNotation n) \<and>
   CHR 0x22 \<notin> set (expNotation n)"
proof -
  have sub: "set (stripZeros (natToDigits n)) \<subseteq> set (natToDigits n)"
    by (auto simp: stripZeros_def dest: set_dropWhileD)
  obtain m where m: "stripZeros (natToDigits n) = m"
    by blast
  with sub natToDigits_plain [of n]
  have "CHR '','' \<notin> set m \<and> CHR 0x0A \<notin> set m \<and> CHR 0x22 \<notin> set m"
    by auto
  with m natToDigits_plain [of "length (natToDigits n) - 1"] show ?thesis
    by (cases m) (auto simp: expNotation_def Let_def)
qed

lemma toFixed2_plain:
  "CHR '','' \<notin> set (toFixed 2 n) \<and> CHR 0x0A \<notin> set (toFixed 2 n) \<and>
   CHR 0x22 \<notin> set (toFixed 2 n)"
proof (cases n)
  case (Fin x)
  show ?thesis
  proof (cases "\<bar>x\<bar> < 10 ^ 21")
    case True
    from toFixed2_shape [OF True] obtain ip a b where
      "toFixed 2 (Fin x) = (if x < 0 then ''-'' else '''') @ ip @ [CHR ''.'', a, b]"
      "list_all isDigit ip" "isDigit a" "isDigit b"
      by blast
    with Fin digits_plain [of ip] isDigit_plain [of a] isDigit_plain [of b] show ?thesis
      by auto
  next
    case False
    with Fin expNotation_plain [of "nat \<lfloor>\<bar>x\<bar>\<rfloor>"] show ?thesis
      by (auto simp: toFixed.simps positiveToString_def)
  qed
qed (simp_all add: toFixed.simps)

lemma plainCell_amountText: "plainCell (amountText v)"
proof -
  have "CHR '','' \<notin> set (amountText v) \<and> CHR 0x0A \<notin> set (amountText v) \<and>
        CHR 0x22 \<notin> set (amountText v)"
    using toFixed2_plain by (cases v) (auto simp: amountText_def)
  then show ?thesis
    by (cases "amountText v") (auto simp: plainCell_def)
qed

text \<open>One row, followed by a line feed or by the end of the text.\<close>

lemma csvParse_row_newline:
  assumes "plainColumns e r"
  shows "csvParse FieldStart [] [] (rowLine e r @ CHR 0x0A # rest)
         = rowFields e r # csvParse FieldStart [] [] rest"
proof -
  from assms have p: "plainCell (elemToString (entry_id r))"
      "plainCell (localeDate e (entry_timestamp r))"
      "plainCell (elemToString (entry_type r))"
      "plainCell (methodText (entry_paymentMethod r))"
    by (simp_all add: plainColumns_def)
  show ?thesis
    unfolding rowLine_def rowFields_def
    by (simp add: csvParse_plain_comma [OF p(1)] csvParse_plain_comma [OF p(2)]
          csvParse_plain_comma [OF p(3)] csvParse_plain_comma [OF plainCell_amountText]
          csvParse_quoted_comma csvParse_plain_newline [OF p(4)])
qed

lemma csvParse_row_end:
  assumes "plainColumns e r"
  shows "csvParse FieldStart [] [] (rowLine e r) = [rowFields e r]"
proof -
  from assms have p: "plainCell (elemToString (entry_id r))"
      "plainCell (localeDate e (entry_timestamp r))"
      "plainCell (elemToString (entry_type r))"
      "plainCell (methodText (entry_paymentMethod r))"
    by (simp_all add: plainColumns_def)
  show ?thesis
    unfolding rowLine_def rowFields_def
    by (simp add: csvParse_plain_comma [OF p(1)] csvParse_plain_comma [OF p(2)]
          csvParse_plain_comma [OF p(3)] csvParse_plain_comma [OF plainCell_amountText]
          csvParse_quoted_comma csvParse_plain_end [OF p(4)])
qed

lemma csvParse_rows:
  "es \<noteq> [] \<Longrightarrow> \<forall>r\<in>set es. plainColumns e r \<Longrightarrow>
   csvParse FieldStart [] [] (joinWith ''\<newline>'' (map (rowLine e) es)) = map (rowFields e) es"
proof (induction es)
  case Nil
  then show ?case by simp
next
  case (Cons r es)
  show ?case
  proof (cases es)
    case Nil
    with Cons.prems show ?thesis
      by (simp add: csvParse_row_end)
  next
    case (Cons r' es')
    with Cons.IH Cons.prems
    have "csvParse FieldStart [] [] (joinWith ''\<newline>'' (map (rowLine e) es)) = map (rowFields e) es"
      by simp
    with Cons Cons.prems show ?thesis
      by (simp add: csvParse_row_newline)
  qed
qed

lemma csvParse_header:
  "csvParse FieldStart [] [] (headerLine @ CHR 0x0A # rest) = header # csvParse FieldStart [] [] rest"
  by (simp add: headerLine_def header_def)

text \<open>
  C6. For every non-empty record set that the export prints, and whose unquoted columns
  (identifier, locale date, category, payment method) contain no comma and no line feed
  and do not start with a double quote, reading the exported text back gives the header
  and one row of seven fields per record, in order; the third field is the description
  and the sixth the name, exactly as they are in the record, whatever characters they
  contain.
\<close>

theorem exportToCSV_round_trip:
  "entries s \<noteq> [] \<and> (\<forall>r\<in>set (entries s). exportable r \<and> plainColumns e r) \<longrightarrow>
     (\<exists>d. exportToCSV e s = Inr (s\<lparr>downloads := downloads s @ [d], message := msgExported\<rparr>) \<and>
          parseCSV (content d) = header # map (rowFields e) (entries s) \<and>
          (\<forall>i<length (entries s).
             parseCSV (content d) ! Suc i ! 2 = textOf (entry_description (entries s ! i)) \<and>
             parseCSV (content d) ! Suc i ! 5 = textOf (entry_entityName (entries s ! i))))"
proof
  assume ok: "entries s \<noteq> [] \<and> (\<forall>r\<in>set (entries s). exportable r \<and> plainColumns e r)"
  let ?c = "headerLine @ ''\<newline>'' @ joinWith ''\<newline>'' (map (rowLine e) (entries s))"
  let ?d = "\<lparr>filename = ''registros_contables.csv'', mimeType = ''text/csv;charset=utf-8;'',
             content = ?c\<rparr>"
  from ok have run: "exportToCSV e s = Inr (s\<lparr>downloads := downloads s @ [?d], message := msgExported\<rparr>)"
    by (simp add: exportToCSV_exportable)
  from ok have "csvParse FieldStart [] [] (joinWith ''\<newline>'' (map (rowLine e) (entries s)))
      = map (rowFields e) (entries s)"
    by (simp add: csvParse_rows)
  then have parse: "parseCSV (content ?d) = header # map (rowFields e) (entries s)"
    by (simp add: parseCSV_def csvParse_header)
  have cols: "\<forall>i<length (entries s).
      parseCSV (content ?d) ! Suc i ! 2 = textOf (entry_description (entries s ! i)) \<and>
      parseCSV (content ?d) ! Suc i ! 5 = textOf (entry_entityName (entries s ! i))"
    unfolding parse by (simp add: rowFields_def)
  from run parse cols
  show "\<exists>d. exportToCSV e s = Inr (s\<lparr>downloads := downloads s @ [d], message := msgExported\<rparr>) \<and>
          parseCSV (content d) = header # map (rowFields e) (entries s) \<and>
          (\<forall>i<length (entries s).
             parseCSV (content d) ! Suc i ! 2 = textOf (entry_description (entries s ! i)) \<and>
             parseCSV (content d) ! Suc i ! 5 = textOf (entry_entityName (entries s ! i)))"
    by blast
qed

lemma rowLine_quotedEntry:
  "rowLine sampleEnv quotedEntry
   = ''a8,1/4/2024,\"Pago \"\"extra\"\", enero\",12.50,gasto,\"Acme, S.A.\",Tarjeta''"
  by (simp add: rowLine_def quotedEntry_def sampleEnv_def csvQuote_def textOf_def replaceQuotes_def
        amountText_def methodText_def toFixed_samples)

lemma rowFields_samples:
  "rowFields sampleEnv quotedEntry
   = [''a8'', ''1/4/2024'', ''Pago \"extra\", enero'', ''12.50'', ''gasto'', ''Acme, S.A.'', ''Tarjeta'']"
  "rowFields sampleEnv income100
   = [''a1'', ''1/1/2024'', ''Sueldo'', ''100.00'', ''ingreso'', ''Acme'', ''Efectivo'']"
  by (simp_all add: rowFields_def quotedEntry_def income100_def sampleEnv_def textOf_def
        amountText_def methodText_def toFixed_samples)

lemma plainColumns_samples:
  "plainColumns sampleEnv quotedEntry" "plainColumns sampleEnv income100"
  by (simp_all add: plainColumns_def plainCell_def quotedEntry_def income100_def sampleEnv_def
        methodText_def)

theorem exportToCSV_round_trip_witness:
  "entries (withEntries [quotedEntry, income100]) \<noteq> [] \<and>
   exportable quotedEntry \<and> plainColumns sampleEnv quotedEntry \<and>
   exportable income100 \<and> plainColumns sampleEnv income100 \<and>
   entry_description quotedEntry = JStr ''Pago \"extra\", enero'' \<and>
   entry_entityName quotedEntry = JStr ''Acme, S.A.'' \<and>
   (\<exists>d. exportToCSV sampleEnv (withEntries [quotedEntry, income100])
          = Inr ((withEntries [quotedEntry, income100])\<lparr>downloads := [d], message := msgExported\<rparr>) \<and>
        parseCSV (content d) =
          [[''ID'', ''Fecha'', ''Descripci'' @ [CHR 0xC3, CHR 0xB3] @ ''n'', ''Monto'', ''Tipo'',
            ''Entidad'', ''M'' @ [CHR 0xC3, CHR 0xA9] @ ''todo de Pago''],
           [''a8'', ''1/4/2024'', ''Pago \"extra\", enero'', ''12.50'', ''gasto'', ''Acme, S.A.'',
            ''Tarjeta''],
           [''a1'', ''1/1/2024'', ''Sueldo'', ''100.00'', ''ingreso'', ''Acme'', ''Efectivo'']])"
proof -
  let ?s = "withEntries [quotedEntry, income100]"
  have es: "entries ?s = [quotedEntry, income100]" and none: "downloads ?s = []"
    by (simp_all add: withEntries_def initialApp_def)
  have ok: "entries ?s \<noteq> [] \<and> (\<forall>r\<in>set (entries ?s). exportable r \<and> plainColumns sampleEnv r)"
    by (simp add: es exportable_samples plainColumns_samples)
  have texts: "entry_description quotedEntry = JStr ''Pago \"extra\", enero'' \<and>
      entry_entityName quotedEntry = JStr ''Acme, S.A.''"
    by (simp add: quotedEntry_def)
  from ok exportToCSV_round_trip [where s = ?s and e = sampleEnv]
  obtain d where
    run: "exportToCSV sampleEnv ?s = Inr (?s\<lparr>downloads := downloads ?s @ [d], message := msgExported\<rparr>)"
    and parse: "parseCSV (content d) = header # map (rowFields sampleEnv) (entries ?s)"
    by blast
  from run have run': "exportToCSV sampleEnv ?s = Inr (?s\<lparr>downloads := [d], message := msgExported\<rparr>)"
    by (simp add: none)
  from parse have parse': "parseCSV (content d) =
          [[''ID'', ''Fecha'', ''Descripci'' @ [CHR 0xC3, CHR 0xB3] @ ''n'', ''Monto'', ''Tipo'',
            ''Entidad'', ''M'' @ [CHR 0xC3, CHR 0xA9] @ ''todo de Pago''],
           [''a8'', ''1/4/2024'', ''Pago \"extra\", enero'', ''12.50'', ''gasto'', ''Acme, S.A.'',
            ''Tarjeta''],
           [''a1'', ''1/1/2024'', ''Sueldo'', ''100.00'', ''ingreso'', ''Acme'', ''Efectivo'']]"
    by (simp add: es header_def rowFields_samples)
  from run' parse' have "\<exists>d. exportToCSV sampleEnv ?s
          = Inr (?s\<lparr>downloads := [d], message := msgExported\<rparr>) \<and>
        parseCSV (content d) =
          [[''ID'', ''Fecha'', ''Descripci'' @ [CHR 0xC3, CHR 0xB3] @ ''n'', ''Monto'', ''Tipo'',
            ''Entidad'', ''M'' @ [CHR 0xC3, CHR 0xA9] @ ''todo de Pago''],
           [''a8'', ''1/4/2024'', ''Pago \"extra\", enero'', ''12.50'', ''gasto'', ''Acme, S.A.'',
            ''Tarjeta''],
           [''a1'', ''1/1/2024'', ''Sueldo'', ''100.00'', ''ingreso'', ''Acme'', ''Efectivo'']]"
    by blast
  with ok texts show ?thesis
    by (simp add: es exportable_samples plainColumns_samples)
qed

end
